theory Spec2Isabelle
  imports Main
begin

section \<open>Values\<close>

text \<open>
  The values that travel through the coordinator (agent responses, contexts, session
  records) are Python objects typed \<open>Any\<close> that end up in \<open>json.dumps\<close>. They are
  modelled by the JSON data model: \<open>None\<close>, booleans, integers, strings, lists and
  dictionaries with string keys. A dictionary is an association list in insertion order.
  Floating point numbers, tuples and dictionaries with other keys are outside the model.
\<close>

datatype json =
    JNull
  | JBool bool
  | JInt int
  | JStr string
  | JList "json list"
  | JDict "(string \<times> json) list"

type_synonym pydict = "(string \<times> json) list"

text \<open>\<open>d[k] = v\<close>: an existing key keeps its position, a new key goes to the end.\<close>

fun dict_setitem :: "string \<Rightarrow> 'v \<Rightarrow> (string \<times> 'v) list \<Rightarrow> (string \<times> 'v) list" where
  "dict_setitem k v [] = [(k, v)]"
| "dict_setitem k v ((k', v') # d) =
     (if k' = k then (k, v) # d else (k', v') # dict_setitem k v d)"

text \<open>Python truthiness, as tested by \<open>if previous_context:\<close> and \<open>context or {}\<close>.\<close>

fun truthy :: "json \<Rightarrow> bool" where
  "truthy JNull = False"
| "truthy (JBool b) = b"
| "truthy (JInt i) = (i \<noteq> 0)"
| "truthy (JStr s) = (s \<noteq> [])"
| "truthy (JList xs) = (xs \<noteq> [])"
| "truthy (JDict d) = (d \<noteq> [])"

text \<open>
  What Python guarantees of a value built from dictionaries: no key occurs twice in one
  dictionary.
\<close>

fun wf_json :: "json \<Rightarrow> bool"
  and wf_items :: "json list \<Rightarrow> bool"
  and wf_members :: "(string \<times> json) list \<Rightarrow> bool" where
  "wf_json (JList xs) = wf_items xs"
| "wf_json (JDict d) = (distinct (map fst d) \<and> wf_members d)"
| "wf_json _ = True"
| "wf_items [] = True"
| "wf_items (x # xs) = (wf_json x \<and> wf_items xs)"
| "wf_members [] = True"
| "wf_members ((k, v) # ms) = (wf_json v \<and> wf_members ms)"

section \<open>The json module\<close>

text \<open>
  \<open>json.dumps\<close> and \<open>json.loads\<close> with the default arguments the source uses, on the
  values of the model: \<open>ensure_ascii\<close> escaping, the separators \<open>", "\<close> and
  \<open>": "\<close> on the way out; whitespace, escapes, literals and integers on the way in. A
  character is one code point below 256. A text that denotes a value outside the model
  (a number with a fraction or an exponent, \<open>NaN\<close>, an escape of a code point from 256 on)
  is treated like a text that does not decode.
\<close>

subsection \<open>str(int)\<close>

definition digit_char :: "nat \<Rightarrow> char" where
  "digit_char d = char_of (48 + d)"

fun str_nat :: "nat \<Rightarrow> string" where
  "str_nat n = (if n < 10 then [digit_char n] else str_nat (n div 10) @ [digit_char (n mod 10)])"

declare str_nat.simps [simp del]

definition str_int :: "int \<Rightarrow> string" where
  "str_int i = (if i < 0 then CHR ''-'' # str_nat (nat (- i)) else str_nat (nat i))"

subsection \<open>json.dumps\<close>

definition hex_char :: "nat \<Rightarrow> char" where
  "hex_char d = (if d < 10 then char_of (48 + d) else char_of (87 + d))"

definition escape_char :: "char \<Rightarrow> string" where
  "escape_char c =
     (if c = CHR 0x5C then [CHR 0x5C, CHR 0x5C]
      else if c = CHR 0x22 then [CHR 0x5C, CHR 0x22]
      else if c = CHR 0x08 then [CHR 0x5C, CHR ''b'']
      else if c = CHR 0x0C then [CHR 0x5C, CHR ''f'']
      else if c = CHR 0x0A then [CHR 0x5C, CHR ''n'']
      else if c = CHR 0x0D then [CHR 0x5C, CHR ''r'']
      else if c = CHR 0x09 then [CHR 0x5C, CHR ''t'']
      else if 32 \<le> (of_char c :: nat) \<and> (of_char c :: nat) \<le> 126 then [c]
      else [CHR 0x5C, CHR ''u'', CHR ''0'', CHR ''0'',
            hex_char (of_char c div 16), hex_char (of_char c mod 16)])"

definition encode_string :: "string \<Rightarrow> string" where
  "encode_string s = CHR 0x22 # concat (map escape_char s) @ [CHR 0x22]"

fun json_dumps :: "json \<Rightarrow> string"
  and dumps_items :: "json list \<Rightarrow> string"
  and dumps_members :: "(string \<times> json) list \<Rightarrow> string" where
  "json_dumps JNull = ''null''"
| "json_dumps (JBool b) = (if b then ''true'' else ''false'')"
| "json_dumps (JInt i) = str_int i"
| "json_dumps (JStr s) = encode_string s"
| "json_dumps (JList xs) = ''['' @ dumps_items xs @ '']''"
| "json_dumps (JDict d) = ''{'' @ dumps_members d @ ''}''"
| "dumps_items [] = []"
| "dumps_items [x] = json_dumps x"
| "dumps_items (x # y # ys) = json_dumps x @ '', '' @ dumps_items (y # ys)"
| "dumps_members [] = []"
| "dumps_members [(k, v)] = encode_string k @ '': '' @ json_dumps v"
| "dumps_members ((k, v) # m # ms) =
     encode_string k @ '': '' @ json_dumps v @ '', '' @ dumps_members (m # ms)"

subsection \<open>json.loads\<close>

definition is_ws :: "char \<Rightarrow> bool" where
  "is_ws c = (c = CHR '' '' \<or> c = CHR 0x09 \<or> c = CHR 0x0A \<or> c = CHR 0x0D)"

definition skip_ws :: "string \<Rightarrow> string" where
  "skip_ws s = dropWhile is_ws s"

definition is_digit :: "char \<Rightarrow> bool" where
  "is_digit c = (48 \<le> (of_char c :: nat) \<and> (of_char c :: nat) \<le> 57)"

definition hex_val :: "char \<Rightarrow> nat option" where
  "hex_val c =
     (let n = of_char c :: nat in
      if 48 \<le> n \<and> n \<le> 57 then Some (n - 48)
      else if 97 \<le> n \<and> n \<le> 102 then Some (n - 87)
      else if 65 \<le> n \<and> n \<le> 70 then Some (n - 55)
      else None)"

definition hex4 :: "char \<Rightarrow> char \<Rightarrow> char \<Rightarrow> char \<Rightarrow> nat option" where
  "hex4 a b c d =
     (case (hex_val a, hex_val b, hex_val c, hex_val d) of
        (Some x, Some y, Some z, Some u) \<Rightarrow> Some (((x * 16 + y) * 16 + z) * 16 + u)
      | _ \<Rightarrow> None)"

definition unescape :: "char \<Rightarrow> char option" where
  "unescape e =
     (if e = CHR 0x22 then Some (CHR 0x22)
      else if e = CHR 0x5C then Some (CHR 0x5C)
      else if e = CHR ''/'' then Some (CHR ''/'')
      else if e = CHR ''b'' then Some (CHR 0x08)
      else if e = CHR ''f'' then Some (CHR 0x0C)
      else if e = CHR ''n'' then Some (CHR 0x0A)
      else if e = CHR ''r'' then Some (CHR 0x0D)
      else if e = CHR ''t'' then Some (CHR 0x09)
      else None)"

fun scanstring :: "string \<Rightarrow> (string \<times> string) option" where
  "scanstring [] = None"
| "scanstring (c # cs) =
     (if c = CHR 0x22 then Some ([], cs)
      else if c = CHR 0x5C then
        (case cs of
           [] \<Rightarrow> None
         | e # r \<Rightarrow>
             if e = CHR ''u'' then
               (case r of
                  h1 # h2 # h3 # h4 # r' \<Rightarrow>
                    (case hex4 h1 h2 h3 h4 of
                       None \<Rightarrow> None
                     | Some n \<Rightarrow>
                         if n < 256 then
                           (case scanstring r' of
                              None \<Rightarrow> None
                            | Some (s, rest) \<Rightarrow> Some (char_of n # s, rest))
                         else None)
                | _ \<Rightarrow> None)
             else
               (case unescape e of
                  None \<Rightarrow> None
                | Some ch \<Rightarrow>
                    (case scanstring r of
                       None \<Rightarrow> None
                     | Some (s, rest) \<Rightarrow> Some (ch # s, rest))))
      else if (of_char c :: nat) < 32 then None
      else (case scanstring cs of
              None \<Rightarrow> None
            | Some (s, rest) \<Rightarrow> Some (c # s, rest)))"

definition digits_value :: "string \<Rightarrow> nat" where
  "digits_value ds = foldl (\<lambda>a c. 10 * a + (of_char c - 48)) 0 ds"

definition float_tail :: "string \<Rightarrow> bool" where
  "float_tail r =
     (case r of
        [] \<Rightarrow> False
      | c # r1 \<Rightarrow>
          if c = CHR ''.'' then (case r1 of d # _ \<Rightarrow> is_digit d | [] \<Rightarrow> False)
          else if c = CHR ''e'' \<or> c = CHR ''E'' then
            (case r1 of
               [] \<Rightarrow> False
             | d # r2 \<Rightarrow>
                 is_digit d \<or>
                 ((d = CHR ''+'' \<or> d = CHR ''-'') \<and> (case r2 of d' # _ \<Rightarrow> is_digit d' | [] \<Rightarrow> False)))
          else False)"

definition scan_magnitude :: "string \<Rightarrow> (nat \<times> string) option" where
  "scan_magnitude s =
     (case s of
        [] \<Rightarrow> None
      | c # r \<Rightarrow>
          if c = CHR ''0'' then Some (0, r)
          else if is_digit c then
            Some (digits_value (c # takeWhile is_digit r), dropWhile is_digit r)
          else None)"

definition scan_number :: "string \<Rightarrow> (json \<times> string) option" where
  "scan_number s =
     (case s of
        [] \<Rightarrow> None
      | c # r \<Rightarrow>
          (case (if c = CHR ''-'' then scan_magnitude r else scan_magnitude s) of
             None \<Rightarrow> None
           | Some (n, rest) \<Rightarrow>
               if float_tail rest then None
               else Some (JInt (if c = CHR ''-'' then - int n else int n), rest)))"

definition dict_of_pairs :: "(string \<times> json) list \<Rightarrow> pydict" where
  "dict_of_pairs ps = foldl (\<lambda>d (k, v). dict_setitem k v d) [] ps"

fun scan_once :: "nat \<Rightarrow> string \<Rightarrow> (json \<times> string) option"
  and parse_array :: "nat \<Rightarrow> string \<Rightarrow> (json list \<times> string) option"
  and parse_object :: "nat \<Rightarrow> string \<Rightarrow> ((string \<times> json) list \<times> string) option" where
  "scan_once 0 s = None"
| "scan_once (Suc n) [] = None"
| "scan_once (Suc n) (c # cs) =
     (if c = CHR 0x22 then
        (case scanstring cs of None \<Rightarrow> None | Some (s, rest) \<Rightarrow> Some (JStr s, rest))
      else if c = CHR ''{'' then
        (case skip_ws cs of
           [] \<Rightarrow> None
         | c1 # r \<Rightarrow>
             if c1 = CHR ''}'' then Some (JDict [], r)
             else if c1 = CHR 0x22 then
               (case parse_object n r of
                  None \<Rightarrow> None
                | Some (ps, rest) \<Rightarrow> Some (JDict (dict_of_pairs ps), rest))
             else None)
      else if c = CHR ''['' then
        (case skip_ws cs of
           [] \<Rightarrow> None
         | c1 # r \<Rightarrow>
             if c1 = CHR '']'' then Some (JList [], r)
             else (case parse_array n (c1 # r) of
                     None \<Rightarrow> None
                   | Some (vs, rest) \<Rightarrow> Some (JList vs, rest)))
      else if c = CHR ''n'' \<and> take 3 cs = ''ull'' then Some (JNull, drop 3 cs)
      else if c = CHR ''t'' \<and> take 3 cs = ''rue'' then Some (JBool True, drop 3 cs)
      else if c = CHR ''f'' \<and> take 4 cs = ''alse'' then Some (JBool False, drop 4 cs)
      else scan_number (c # cs))"
| "parse_array 0 s = None"
| "parse_array (Suc n) s =
     (case scan_once n s of
        None \<Rightarrow> None
      | Some (v, r) \<Rightarrow>
          (case skip_ws r of
             [] \<Rightarrow> None
           | c # r1 \<Rightarrow>
               if c = CHR '']'' then Some ([v], r1)
               else if c = CHR '','' then
                 (case parse_array n (skip_ws r1) of
                    None \<Rightarrow> None
                  | Some (vs, rest) \<Rightarrow> Some (v # vs, rest))
               else None))"
| "parse_object 0 s = None"
| "parse_object (Suc n) s =
     (case scanstring s of
        None \<Rightarrow> None
      | Some (k, r) \<Rightarrow>
          (case skip_ws r of
             [] \<Rightarrow> None
           | c # r1 \<Rightarrow>
               if c = CHR '':'' then
                 (case scan_once n (skip_ws r1) of
                    None \<Rightarrow> None
                  | Some (v, r2) \<Rightarrow>
                      (case skip_ws r2 of
                         [] \<Rightarrow> None
                       | c2 # r3 \<Rightarrow>
                           if c2 = CHR ''}'' then Some ([(k, v)], r3)
                           else if c2 = CHR '','' then
                             (case skip_ws r3 of
                                [] \<Rightarrow> None
                              | c3 # r4 \<Rightarrow>
                                  if c3 = CHR 0x22 then
                                    (case parse_object n r4 of
                                       None \<Rightarrow> None
                                     | Some (ps, rest) \<Rightarrow> Some ((k, v) # ps, rest))
                                  else None)
                           else None))
               else None))"

definition json_loads :: "string \<Rightarrow> json option" where
  "json_loads s =
     (case scan_once (length s) (skip_ws s) of
        None \<Rightarrow> None
      | Some (v, rest) \<Rightarrow> if skip_ws rest = [] then Some v else None)"

section \<open>swarms\_config.py\<close>

subsection \<open>Agents and the outside world\<close>

text \<open>
  \<open>Agent\<close> comes from the external \<open>swarms\<close> package. The model keeps the three
  constructor arguments the source passes; what \<open>agent.run\<close> answers is a parameter of
  the world.
\<close>

record agent =
  agent_name :: string
  system_prompt :: string
  max_loops :: nat

text \<open>
  The two prompts the source formats. Both are f-strings around fixed text, so a prompt is
  determined by the values interpolated into it: the issue and the findings mapping
  for the context prompt, the result mapping for the solution prompt.
\<close>

datatype prompt =
    Context_Prompt string pydict
  | Solution_Prompt pydict

text \<open>
  One call of \<open>agent.run\<close>: who was called, with which prompt, and what came back
  (\<open>Inr\<close> the response, \<open>Inl\<close> the text \<open>str(e)\<close> of the exception raised).
\<close>

type_synonym run_entry = "string \<times> prompt \<times> (string + json)"

text \<open>
  A row of the table \<open>memory_store(key, value, timestamp, ttl)\<close>, without its key.
\<close>

record row =
  row_value :: string
  row_timestamp :: string
  row_ttl :: "int option"

text \<open>
  What \<open>subprocess.run\<close> gives back: a completed process with its return code, standard
  output and standard error, or an exception (\<open>TimeoutExpired\<close> after 30 seconds, or
  the \<open>OSError\<close> of a command that cannot be launched) with its text.
\<close>

datatype process_result =
    Completed int string string
  | Run_Raised string

text \<open>
  The world outside the two classes: the agents' answers and the log of the calls made to
  them, the clock (\<open>int(datetime.now().timestamp())\<close> and
  \<open>datetime.now().isoformat()\<close>; it does not advance by itself), the SQLite files by
  path (\<open>None\<close>: no such file; \<open>Some None\<close>: a database without the table
  \<open>memory_store\<close>; \<open>Some (Some t)\<close>: the table, by primary key), whether the
  directory \<open>.swarm\<close> exists, the paths at which \<open>sqlite3\<close> raises, and the outcome of
  the external command. The external command is taken to leave the files alone.
\<close>

record world =
  agent_run :: "run_entry list \<Rightarrow> agent \<Rightarrow> prompt \<Rightarrow> string + json"
  run_log :: "run_entry list"
  now_unix :: int
  now_iso :: string
  files :: "string \<rightharpoonup> (string \<rightharpoonup> row) option"
  swarm_dir :: bool
  db_fails :: "string \<Rightarrow> bool"
  subprocess_run :: "string list \<Rightarrow> process_result"

text \<open>
  \<open>agent.run(prompt)\<close>: the answer may depend on everything the agents were asked
  before; the call is added to the log.
\<close>

definition run :: "world \<Rightarrow> agent \<Rightarrow> prompt \<Rightarrow> (string + json) \<times> world" where
  "run w a p =
     (let out = agent_run w (run_log w) a p
      in (out, w\<lparr>run_log := run_log w @ [(agent_name a, p, out)]\<rparr>))"

subsection \<open>TerminalDebugSwarm\<close>

text \<open>
  \<open>debug_memory\<close> is a dictionary that only ever holds the keys \<open>current_issue\<close> and
  \<open>agent_findings\<close>; \<open>None\<close> is a key that is not there.
\<close>

record debug_memory =
  current_issue :: "string option"
  agent_findings :: "pydict option"

record swarm =
  max_agents :: nat
  agents :: "agent list"
  debug_memory :: debug_memory

definition TerminalDebugSwarm :: "nat \<Rightarrow> swarm" where
  "TerminalDebugSwarm n =
     \<lparr>max_agents = n, agents = [],
      debug_memory = \<lparr>current_issue = None, agent_findings = None\<rparr>\<rparr>"

definition frontend_agent :: agent where
  "frontend_agent = \<lparr>agent_name = ''FrontendDebugger'',
     system_prompt =
       ''You are a frontend debugging specialist for terminal applications.\<newline>'' @
       ''            Focus on:\<newline>'' @
       ''            - React/TypeScript component issues\<newline>'' @
       ''            - UI rendering problems\<newline>'' @
       ''            - State management bugs\<newline>'' @
       ''            - Mobile responsiveness issues\<newline>'' @
       ''            - Terminal interface problems\<newline>'' @
       ''            \<newline>'' @
       ''            Coordinate with other agents through shared memory and findings.'',
     max_loops = 3\<rparr>"

definition backend_agent :: agent where
  "backend_agent = \<lparr>agent_name = ''BackendDebugger'',
     system_prompt =
       ''You are a backend debugging specialist for terminal applications.\<newline>'' @
       ''            Focus on:\<newline>'' @
       ''            - Rust core execution issues\<newline>'' @
       ''            - Command processing problems\<newline>'' @
       ''            - Security vulnerabilities\<newline>'' @
       ''            - Performance bottlenecks\<newline>'' @
       ''            - Inter-process communication\<newline>'' @
       ''            \<newline>'' @
       ''            Share findings with frontend and system agents.'',
     max_loops = 3\<rparr>"

definition system_agent :: agent where
  "system_agent = \<lparr>agent_name = ''SystemIntegrator'',
     system_prompt =
       ''You are a system integration debugging specialist.\<newline>'' @
       ''            Focus on:\<newline>'' @
       ''            - Build system issues\<newline>'' @
       ''            - Dependency conflicts\<newline>'' @
       ''            - Environment configuration\<newline>'' @
       ''            - Docker/deployment problems\<newline>'' @
       ''            - CI/CD pipeline failures\<newline>'' @
       ''            \<newline>'' @
       ''            Coordinate overall system health with all agents.'',
     max_loops = 3\<rparr>"

definition test_agent :: agent where
  "test_agent = \<lparr>agent_name = ''TestCoordinator'',
     system_prompt =
       ''You are a test debugging and coordination specialist.\<newline>'' @
       ''            Focus on:\<newline>'' @
       ''            - Test failures analysis\<newline>'' @
       ''            - TDD workflow issues\<newline>'' @
       ''            - Test coverage problems\<newline>'' @
       ''            - Integration test coordination\<newline>'' @
       ''            - Quality assurance\<newline>'' @
       ''            \<newline>'' @
       ''            Ensure all fixes are properly tested.'',
     max_loops = 3\<rparr>"

definition perf_agent :: agent where
  "perf_agent = \<lparr>agent_name = ''PerformanceAnalyzer'',
     system_prompt =
       ''You are a performance debugging specialist.\<newline>'' @
       ''            Focus on:\<newline>'' @
       ''            - Memory usage optimization\<newline>'' @
       ''            - CPU performance issues\<newline>'' @
       ''            - Bundle size analysis\<newline>'' @
       ''            - Runtime performance\<newline>'' @
       ''            - Resource utilization\<newline>'' @
       ''            \<newline>'' @
       ''            Provide performance insights to all agents.'',
     max_loops = 3\<rparr>"

definition create_debug_agents :: "swarm \<Rightarrow> swarm" where
  "create_debug_agents sw =
     sw\<lparr>agents := [frontend_agent, backend_agent, system_agent, test_agent, perf_agent]\<rparr>"

definition create_terminal_debug_swarm :: swarm where
  "create_terminal_debug_swarm = create_debug_agents (TerminalDebugSwarm 5)"

subsection \<open>coordinate\_debugging\<close>

text \<open>\<open>self.debug_memory.get('agent_findings', {})\<close>\<close>

definition get_agent_findings :: "debug_memory \<Rightarrow> pydict" where
  "get_agent_findings dm = (case agent_findings dm of None \<Rightarrow> [] | Some f \<Rightarrow> f)"

text \<open>
  The body of the \<open>for agent in self.agents\<close> loop. In the \<open>try\<close> block the response
  is stored in \<open>results\<close> and then in \<open>debug_memory['agent_findings']\<close>; the second
  subscript raises \<open>KeyError\<close> when that key is missing, which the same \<open>except\<close>
  turns into an error entry. An exception of \<open>agent.run\<close> leaves the findings as they
  were.
\<close>

definition analyze :: "string \<Rightarrow> agent \<Rightarrow> pydict \<times> debug_memory \<times> world
    \<Rightarrow> pydict \<times> debug_memory \<times> world" where
  "analyze issue_description a st =
     (case st of (results, dm, w) \<Rightarrow>
        (let context_prompt = Context_Prompt issue_description (get_agent_findings dm);
             (out, w') = run w a context_prompt
         in (case out of
               Inr response \<Rightarrow>
                 (case agent_findings dm of
                    Some f \<Rightarrow>
                      (dict_setitem (agent_name a) response results,
                       dm\<lparr>agent_findings := Some (dict_setitem (agent_name a) response f)\<rparr>,
                       w')
                  | None \<Rightarrow>
                      (dict_setitem (agent_name a)
                         (JStr (''Error: '' @ [CHR 39] @ ''agent_findings'' @ [CHR 39])) results,
                       dm, w'))
             | Inl e \<Rightarrow>
                 (dict_setitem (agent_name a) (JStr (''Error: '' @ e)) results, dm, w'))))"

fun dispatch :: "string \<Rightarrow> agent list \<Rightarrow> pydict \<times> debug_memory \<times> world
    \<Rightarrow> pydict \<times> debug_memory \<times> world" where
  "dispatch issue_description [] st = st"
| "dispatch issue_description (a # as) st =
     dispatch issue_description as (analyze issue_description a st)"

definition coordinate_debugging :: "world \<Rightarrow> swarm \<Rightarrow> string \<Rightarrow> pydict \<times> swarm \<times> world" where
  "coordinate_debugging w sw issue_description =
     (let dm = (debug_memory sw)\<lparr>current_issue := Some issue_description,
                                  agent_findings := Some []\<rparr>
      in case dispatch issue_description (agents sw) ([], dm, w) of
           (results, dm', w') \<Rightarrow> (results, sw\<lparr>debug_memory := dm'\<rparr>, w'))"

subsection \<open>generate\_coordinated\_solution\<close>

text \<open>
  The call of the first agent is not guarded: an exception of \<open>coordinator.run\<close>
  leaves the function (\<open>Inl\<close>).
\<close>

definition generate_coordinated_solution ::
    "world \<Rightarrow> swarm \<Rightarrow> pydict \<Rightarrow> (string + json) \<times> world" where
  "generate_coordinated_solution w sw debug_results =
     (case agents sw of
        coordinator # _ \<Rightarrow> run w coordinator (Solution_Prompt debug_results)
      | [] \<Rightarrow> (Inr (JStr ''No agents available for solution generation''), w))"

section \<open>swarms\_coordinator.py\<close>

subsection \<open>SwarmsClaudeFlowCoordinator\<close>

text \<open>
  The values the source passes in \<open>params\<close> are strings and booleans; \<open>str(value)\<close>
  puts them on the command line.
\<close>

datatype hook_param = PStr string | PBool bool

fun py_str :: "hook_param \<Rightarrow> string" where
  "py_str (PStr s) = s"
| "py_str (PBool b) = (if b then ''True'' else ''False'')"

text \<open>
  An entry of \<open>coordination_log\<close>: a dictionary with the keys \<open>timestamp\<close>,
  \<open>hook\<close>, \<open>params\<close>, \<open>success\<close> and either \<open>output\<close> or \<open>error\<close>.
\<close>

record log_entry =
  le_timestamp :: string
  le_hook :: string
  le_params :: "(string \<times> hook_param) list"
  le_success :: bool
  le_output :: "string option"
  le_error :: "string option"

record coordinator =
  memory_db_path :: string
  swarm :: "swarm option"
  coordination_log :: "log_entry list"

definition SwarmsClaudeFlowCoordinator :: "string \<Rightarrow> coordinator" where
  "SwarmsClaudeFlowCoordinator path =
     \<lparr>memory_db_path = path, swarm = None, coordination_log = []\<rparr>"

subsection \<open>\_claude\_flow\_hook\<close>

definition claude_flow_hook ::
    "world \<Rightarrow> coordinator \<Rightarrow> string \<Rightarrow> (string \<times> hook_param) list \<Rightarrow> bool \<times> coordinator" where
  "claude_flow_hook w c hook_name params =
     (let cmd_parts = [''npx'', ''claude-flow@alpha'', ''hooks'', hook_name]
            @ concat (map (\<lambda>(key, val). [''--'' @ key, py_str val]) params)
      in (case subprocess_run w cmd_parts of
            Completed returncode out err \<Rightarrow>
              if returncode = 0 then
                (True, c\<lparr>coordination_log := coordination_log c @
                   [\<lparr>le_timestamp = now_iso w, le_hook = hook_name, le_params = params,
                     le_success = True, le_output = Some out, le_error = None\<rparr>]\<rparr>)
              else
                (False, c\<lparr>coordination_log := coordination_log c @
                   [\<lparr>le_timestamp = now_iso w, le_hook = hook_name, le_params = params,
                     le_success = False, le_output = None, le_error = Some err\<rparr>]\<rparr>)
          | Run_Raised e \<Rightarrow> (False, c)))"

subsection \<open>\_store\_coordination\_memory and \_load\_coordination\_memory\<close>

text \<open>
  \<open>os.makedirs(".swarm")\<close>, then \<open>sqlite3.connect\<close> (which creates the file),
  \<open>CREATE TABLE IF NOT EXISTS\<close>, \<open>INSERT OR REPLACE\<close> on the primary key and
  \<open>commit\<close>. Any exception gives \<open>False\<close>.
\<close>

definition store_coordination_memory ::
    "world \<Rightarrow> coordinator \<Rightarrow> string \<Rightarrow> json \<Rightarrow> bool \<times> world" where
  "store_coordination_memory w c key data =
     (let w1 = w\<lparr>swarm_dir := True\<rparr>
      in if db_fails w (memory_db_path c) then (False, w1)
         else
           (let memory_store = (case files w (memory_db_path c) of
                                  Some (Some t) \<Rightarrow> t
                                | _ \<Rightarrow> Map.empty);
                r = \<lparr>row_value = json_dumps data, row_timestamp = now_iso w, row_ttl = None\<rparr>
            in (True, w1\<lparr>files := (files w)(memory_db_path c \<mapsto>
                                      Some (memory_store(key \<mapsto> r)))\<rparr>)))"

text \<open>
  The result is a Python value or \<open>None\<close>, which is \<open>JNull\<close>: a missing file, a
  missing row and every exception (a failing connection, a missing table, a value that
  does not decode) give \<open>None\<close>.
\<close>

definition load_coordination_memory :: "world \<Rightarrow> coordinator \<Rightarrow> string \<Rightarrow> json" where
  "load_coordination_memory w c key =
     (case files w (memory_db_path c) of
        None \<Rightarrow> JNull
      | Some db \<Rightarrow>
          if db_fails w (memory_db_path c) then JNull
          else
            (case db of
               None \<Rightarrow> JNull
             | Some memory_store \<Rightarrow>
                 (case memory_store key of
                    None \<Rightarrow> JNull
                  | Some r \<Rightarrow>
                      (case json_loads (row_value r) of
                         None \<Rightarrow> JNull
                       | Some v \<Rightarrow> v))))"

subsection \<open>initialize\_swarm\<close>

text \<open>
  Building the agents is taken to succeed, so the \<open>except\<close> branch is never entered;
  the hook and the store catch their own exceptions.
\<close>

definition initialize_swarm :: "world \<Rightarrow> coordinator \<Rightarrow> bool \<times> world \<times> coordinator" where
  "initialize_swarm w c =
     (let sw = create_terminal_debug_swarm;
          c1 = c\<lparr>swarm := Some sw\<rparr>;
          (_, c2) = claude_flow_hook w c1 ''notify''
            [(''message'', PStr (''Python swarms initialized with ''
                @ str_int (int (length (agents sw))) @ '' agents'')),
             (''level'', PStr ''success'')];
          swarm_metadata = JDict
            [(''initialized_at'', JStr (now_iso w)),
             (''agent_count'', JInt (int (length (agents sw)))),
             (''agent_names'', JList (map (\<lambda>a. JStr (agent_name a)) (agents sw))),
             (''coordination_type'', JStr ''parallel_debugging'')];
          (_, w1) = store_coordination_memory w c2 ''swarms/metadata'' swarm_metadata
      in (True, w1, c2))"

subsection \<open>coordinate\_debugging\_session\<close>

text \<open>
  The result is \<open>Inr\<close> the dictionary returned, or \<open>Inl\<close> the text of the exception
  that leaves the method: the call of \<open>generate_coordinated_solution\<close> is not guarded.
  The swarm object is mutated in place by \<open>coordinate_debugging\<close>, so the coordinator
  holds the updated swarm from then on.
\<close>

definition coordinate_debugging_session ::
    "world \<Rightarrow> coordinator \<Rightarrow> string \<Rightarrow> pydict option
      \<Rightarrow> (string + pydict) \<times> world \<times> coordinator" where
  "coordinate_debugging_session w c issue_description context =
     (case swarm c of
        None \<Rightarrow> (Inr [(''error'', JStr ''Swarm not initialized'')], w, c)
      | Some sw \<Rightarrow>
          (let session_id = ''debug-session-'' @ str_int (now_unix w);
               (_, c1) = claude_flow_hook w c ''pre-task''
                 [(''description'', PStr (''Swarms debugging session: ''
                     @ take 100 issue_description @ ''...'')),
                  (''task-id'', PStr session_id)];
               previous_context = load_coordination_memory w c1 ''swarms/debugging/context'';
               context1 = (if truthy previous_context
                           then Some (dict_setitem ''previous_findings'' previous_context
                                        (case context of None \<Rightarrow> [] | Some d \<Rightarrow> d))
                           else context);
               (debug_results, sw1, w1) = coordinate_debugging w sw issue_description;
               c2 = c1\<lparr>swarm := Some sw1\<rparr>;
               session_data =
                 [(''session_id'', JStr session_id),
                  (''issue'', JStr issue_description),
                  (''timestamp'', JStr (now_iso w1)),
                  (''agent_results'', JDict debug_results),
                  (''context'', JDict (case context1 of None \<Rightarrow> [] | Some d \<Rightarrow> d))];
               (_, w2) = store_coordination_memory w1 c2
                 (''swarms/debugging/sessions/'' @ session_id) (JDict session_data)
           in (case generate_coordinated_solution w2 sw1 debug_results of
                 (Inl e, w3) \<Rightarrow> (Inl e, w3, c2)
               | (Inr solution, w3) \<Rightarrow>
                   (let session_data1 = dict_setitem ''coordinated_solution'' solution session_data;
                        (_, c3) = claude_flow_hook w3 c2 ''post-task''
                          [(''task-id'', PStr session_id),
                           (''track-metrics'', PBool True),
                           (''store-results'', PBool True)];
                        (_, c4) = claude_flow_hook w3 c3 ''notify''
                          [(''message'', PStr (''Debugging session completed: ''
                              @ str_int (int (length debug_results)) @ '' agents participated'')),
                           (''level'', PStr ''success'')]
                    in (Inr session_data1, w3, c4)))))"

subsection \<open>get\_coordination\_status\<close>

definition get_coordination_status :: "world \<Rightarrow> coordinator \<Rightarrow> pydict" where
  "get_coordination_status w c =
     (let status =
            [(''swarm_initialized'', JBool (swarm c \<noteq> None)),
             (''agent_count'', JInt (case swarm c of
                                      Some sw \<Rightarrow> int (length (agents sw))
                                    | None \<Rightarrow> 0)),
             (''coordination_log_entries'', JInt (int (length (coordination_log c)))),
             (''memory_db_exists'', JBool (files w (memory_db_path c) \<noteq> None))];
          status1 = (case swarm c of
                       Some sw \<Rightarrow> dict_setitem ''agent_names''
                                   (JList (map (\<lambda>a. JStr (agent_name a)) (agents sw))) status
                     | None \<Rightarrow> status);
          loaded = load_coordination_memory w c ''swarms/debugging/sessions'';
          sessions = (if truthy loaded then loaded else JDict [])
      in dict_setitem ''debugging_sessions''
           (case sessions of JDict d \<Rightarrow> JInt (int (length d)) | _ \<Rightarrow> JInt 0) status1)"

subsection \<open>communicate\_with\_claude\_agents\<close>

definition communicate_with_claude_agents ::
    "world \<Rightarrow> coordinator \<Rightarrow> string \<Rightarrow> string \<Rightarrow> pydict \<times> world \<times> coordinator" where
  "communicate_with_claude_agents w c message target_agent =
     (let communication_data =
            [(''timestamp'', JStr (now_iso w)),
             (''from'', JStr ''python_swarms''),
             (''to'', JStr target_agent),
             (''message'', JStr message),
             (''session_active'', JBool (swarm c \<noteq> None))];
          comm_key = ''swarms/communication/'' @ str_int (now_unix w);
          (_, w1) = store_coordination_memory w c comm_key (JDict communication_data);
          (_, c1) = claude_flow_hook w1 c ''notify''
            [(''message'', PStr (''Swarms communication to '' @ target_agent @ '': ''
                @ take 50 message @ ''...'')),
             (''level'', PStr ''info'')]
      in (communication_data, w1, c1))"

section \<open>Vocabulary of the properties\<close>

text \<open>
  The calls of \<open>agent.run\<close> made between two worlds, the results a trace has
  committed to the findings (the calls that returned), and the entry the result mapping
  holds for a call.
\<close>

definition calls :: "world \<Rightarrow> world \<Rightarrow> run_entry list" where
  "calls w w' = drop (length (run_log w)) (run_log w')"

fun committed :: "run_entry list \<Rightarrow> pydict" where
  "committed [] = []"
| "committed ((n, p, Inr r) # T) = (n, r) # committed T"
| "committed ((n, p, Inl e) # T) = committed T"

fun recorded :: "run_entry \<Rightarrow> string \<times> json" where
  "recorded (n, p, Inr r) = (n, r)"
| "recorded (n, p, Inl e) = (n, JStr (''Error: '' @ e))"

text \<open>
  Two predicates of the decoder's proof: a text that cannot continue a number, and a
  character that starts a value.
\<close>

definition start_ok :: "string \<Rightarrow> bool" where
  "start_ok rest = (case rest of [] \<Rightarrow> True
     | c # _ \<Rightarrow> \<not> is_digit c \<and> c \<noteq> CHR ''.'' \<and> c \<noteq> CHR ''e'' \<and> c \<noteq> CHR ''E'')"

definition opener :: "char \<Rightarrow> bool" where
  "opener c = (\<not> is_ws c \<and> c \<noteq> CHR '']'' \<and> c \<noteq> CHR ''}'' \<and> c \<noteq> CHR '','' \<and> c \<noteq> CHR '':'')"

text \<open>
  Three expressions of \<open>coordinate_debugging_session\<close> and
  \<open>generate_coordinated_solution\<close>, named so that the properties can speak of them: what
  the synthesis call answers (\<open>coordinator.run(solution_prompt)\<close>, or the fixed text when
  there is no agent), the context after the merge of lines 77 to 80, and
  \<open>session_data\<close> as built on lines 86 to 92. Lemma \<open>session_effect\<close> below shows
  that the session computes exactly these.
\<close>

definition synthesis :: "world \<Rightarrow> swarm \<Rightarrow> run_entry list \<Rightarrow> pydict \<Rightarrow> string + json" where
  "synthesis w sw log results =
     (case agents sw of
        [] \<Rightarrow> Inr (JStr ''No agents available for solution generation'')
      | a # _ \<Rightarrow> agent_run w log a (Solution_Prompt results))"

definition session_context :: "world \<Rightarrow> coordinator \<Rightarrow> pydict option \<Rightarrow> pydict" where
  "session_context w c context =
     (let p = load_coordination_memory w c ''swarms/debugging/context'';
          d = (case context of None \<Rightarrow> [] | Some d \<Rightarrow> d)
      in if truthy p then dict_setitem ''previous_findings'' p d else d)"

definition session_record :: "world \<Rightarrow> coordinator \<Rightarrow> string \<Rightarrow> pydict option \<Rightarrow> pydict \<Rightarrow> pydict" where
  "session_record w c issue context results =
     [(''session_id'', JStr (''debug-session-'' @ str_int (now_unix w))),
      (''issue'', JStr issue),
      (''timestamp'', JStr (now_iso w)),
      (''agent_results'', JDict results),
      (''context'', JDict (session_context w c context))]"

section \<open>Scenarios\<close>

text \<open>
  Concrete inputs for the closed theorems: a swarm of three workers, a coordinator that
  holds it, and worlds in which every worker answers, the second worker raises, every
  hook exits with code 1, the synthesis request raises, or the external command times
  out; and the world after one write under \<open>swarms/debugging/context\<close>.
\<close>

definition abc_swarm :: swarm where
  "abc_swarm = (TerminalDebugSwarm 5)\<lparr>agents :=
     [\<lparr>agent_name = ''A'', system_prompt = ''first'', max_loops = 3\<rparr>,
      \<lparr>agent_name = ''B'', system_prompt = ''second'', max_loops = 3\<rparr>,
      \<lparr>agent_name = ''C'', system_prompt = ''third'', max_loops = 3\<rparr>]\<rparr>"

definition echo_world :: world where
  "echo_world = \<lparr>agent_run = (\<lambda>log a p. Inr (JStr (''seen by '' @ agent_name a))),
     run_log = [], now_unix = 1700000000, now_iso = ''2023-11-14T22:13:20'',
     files = Map.empty, swarm_dir = False, db_fails = (\<lambda>path. False),
     subprocess_run = (\<lambda>cmd. Completed 0 ''ok'' [])\<rparr>"

definition faulty_world :: world where
  "faulty_world = \<lparr>agent_run = (\<lambda>log a p.
       if agent_name a = ''B'' then Inl ''boom'' else Inr (JStr (''seen by '' @ agent_name a))),
     run_log = [], now_unix = 1700000000, now_iso = ''2023-11-14T22:13:20'',
     files = Map.empty, swarm_dir = False, db_fails = (\<lambda>path. False),
     subprocess_run = (\<lambda>cmd. Completed 0 ''ok'' [])\<rparr>"

definition abc_coordinator :: coordinator where
  "abc_coordinator = \<lparr>memory_db_path = ''.swarm/memory.db'', swarm = Some abc_swarm,
     coordination_log = []\<rparr>"

definition failing_hooks_world :: world where
  "failing_hooks_world = echo_world\<lparr>subprocess_run := (\<lambda>cmd. Completed 1 [] ''hook failed'')\<rparr>"

definition no_synthesis_world :: world where
  "no_synthesis_world = failing_hooks_world\<lparr>agent_run := (\<lambda>log a p.
     case p of
       Context_Prompt i f \<Rightarrow> Inr (JStr (''seen by '' @ agent_name a))
     | Solution_Prompt r \<Rightarrow> Inl ''synthesis failed'')\<rparr>"

definition timeout_world :: world where
  "timeout_world = echo_world\<lparr>subprocess_run :=
     (\<lambda>cmd. Run_Raised ''Command timed out after 30 seconds'')\<rparr>"

definition seeded_world :: "json \<Rightarrow> world" where
  "seeded_world p =
     snd (store_coordination_memory echo_world abc_coordinator ''swarms/debugging/context'' p)"

section \<open>Dictionaries\<close>

lemma dict_setitem_fresh: "k \<notin> fst ` set d \<Longrightarrow> dict_setitem k v d = d @ [(k, v)]"
  by (induction d) auto

section \<open>Encoding and decoding\<close>

lemma of_char_digit_char: "d < 10 \<Longrightarrow> (of_char (digit_char d) :: nat) = 48 + d"
  by (simp add: digit_char_def)

lemma is_digit_digit_char: "d < 10 \<Longrightarrow> is_digit (digit_char d)"
  by (simp add: is_digit_def of_char_digit_char)

lemma str_nat_digits: "\<forall>c\<in>set (str_nat n). is_digit c"
proof (induction n rule: str_nat.induct)
  case (1 n)
  show ?case
  proof (cases "n < 10")
    case True
    then show ?thesis by (subst str_nat.simps) (simp add: is_digit_digit_char)
  next
    case False
    then show ?thesis using 1 by (subst str_nat.simps) (simp add: is_digit_digit_char)
  qed
qed

lemma digits_value_snoc:
  "digits_value (ds @ [c]) = 10 * digits_value ds + (of_char c - 48)"
  by (simp add: digits_value_def)

lemma digits_value_str_nat: "digits_value (str_nat n) = n"
proof (induction n rule: str_nat.induct)
  case (1 n)
  show ?case
  proof (cases "n < 10")
    case True
    then show ?thesis
      by (subst str_nat.simps) (simp add: digits_value_def of_char_digit_char)
  next
    case False
    then show ?thesis using 1
      by (subst str_nat.simps) (simp add: digits_value_snoc of_char_digit_char)
  qed
qed

lemma str_nat_Cons: "\<exists>c cs. str_nat n = c # cs \<and> is_digit c \<and> (c = CHR ''0'' \<longrightarrow> n = 0 \<and> cs = [])"
proof (induction n rule: str_nat.induct)
  case (1 n)
  show ?case
  proof (cases "n < 10")
    case True
    have "digit_char n = CHR ''0'' \<Longrightarrow> n = 0"
    proof -
      assume "digit_char n = CHR ''0''"
      then have "(of_char (digit_char n) :: nat) = of_char (CHR ''0'')" by simp
      then show "n = 0" using True by (simp add: of_char_digit_char)
    qed
    then show ?thesis using True
      by (subst str_nat.simps) (auto simp: is_digit_digit_char)
  next
    case False
    then have "n div 10 \<noteq> 0" by simp
    with 1 False obtain c cs where "str_nat (n div 10) = c # cs" "is_digit c" "c \<noteq> CHR ''0''"
      by auto
    then show ?thesis using False by (subst str_nat.simps) simp
  qed
qed

lemma takeWhile_digits:
  assumes "\<forall>c\<in>set ds. is_digit c" "start_ok rest"
  shows "takeWhile is_digit (ds @ rest) = ds" "dropWhile is_digit (ds @ rest) = rest"
proof -
  have "takeWhile is_digit rest = []" "dropWhile is_digit rest = rest"
    using assms(2) by (cases rest; simp add: start_ok_def)+
  then show "takeWhile is_digit (ds @ rest) = ds" "dropWhile is_digit (ds @ rest) = rest"
    using assms(1) by simp_all
qed

lemma scan_magnitude_str_nat:
  assumes "start_ok rest"
  shows "scan_magnitude (str_nat n @ rest) = Some (n, rest)"
proof -
  obtain c cs where c: "str_nat n = c # cs" "is_digit c" "c = CHR ''0'' \<longrightarrow> n = 0 \<and> cs = []"
    using str_nat_Cons by blast
  have ds: "\<forall>x\<in>set cs. is_digit x" using str_nat_digits[of n] c(1) by simp
  show ?thesis
  proof (cases "c = CHR ''0''")
    case True
    then show ?thesis using c by (simp add: scan_magnitude_def)
  next
    case False
    have "digits_value (c # cs) = n" using digits_value_str_nat[of n] c(1) by simp
    then show ?thesis using False c(1,2) takeWhile_digits[OF ds assms]
      by (simp add: scan_magnitude_def)
  qed
qed

lemma float_tail_start_ok: "start_ok rest \<Longrightarrow> \<not> float_tail rest"
  by (cases rest) (auto simp: start_ok_def float_tail_def)

lemma is_digit_not_minus: "is_digit c \<Longrightarrow> c \<noteq> CHR ''-''"
  by (auto simp: is_digit_def)

lemma scan_number_str_int:
  assumes "start_ok rest"
  shows "scan_number (str_int i @ rest) = Some (JInt i, rest)"
proof (cases "i < 0")
  case True
  then show ?thesis
    using scan_magnitude_str_nat[OF assms, of "nat (- i)"] float_tail_start_ok[OF assms]
    by (simp add: scan_number_def str_int_def)
next
  case False
  obtain c cs where c: "str_nat (nat i) = c # cs" "is_digit c"
    using str_nat_Cons by blast
  then have "c \<noteq> CHR ''-''" using is_digit_not_minus by blast
  then show ?thesis
    using False c(1) scan_magnitude_str_nat[OF assms, of "nat i"] float_tail_start_ok[OF assms]
    by (simp add: scan_number_def str_int_def)
qed

lemma str_int_Cons: "\<exists>c cs. str_int i = c # cs \<and> (is_digit c \<or> c = CHR ''-'')"
  using str_nat_Cons[of "nat i"] str_nat_Cons[of "nat (- i)"]
  by (auto simp: str_int_def)

lemma hex_val_hex_char: "d < 16 \<Longrightarrow> hex_val (hex_char d) = Some d"
  by (auto simp: hex_val_def hex_char_def Let_def)

lemma hex4_byte:
  assumes "n < 256"
  shows "hex4 (CHR ''0'') (CHR ''0'') (hex_char (n div 16)) (hex_char (n mod 16)) = Some n"
proof -
  have "n div 16 < 16" using assms by simp
  then have a: "hex_val (hex_char (n div 16)) = Some (n div 16)" by (rule hex_val_hex_char)
  have b: "hex_val (hex_char (n mod 16)) = Some (n mod 16)" by (rule hex_val_hex_char) simp
  have z: "hex_val (CHR ''0'') = Some 0" by (simp add: hex_val_def)
  show ?thesis by (simp add: hex4_def a b z)
qed

lemma scanstring_escape_char:
  "scanstring (escape_char c @ t) =
     (case scanstring t of None \<Rightarrow> None | Some (s, rest) \<Rightarrow> Some (c # s, rest))"
proof -
  let ?n = "of_char c :: nat"
  have n: "?n < 256" by simp
  consider (special) "c \<in> {CHR 0x5C, CHR 0x22, CHR 0x08, CHR 0x0C, CHR 0x0A, CHR 0x0D, CHR 0x09}"
    | (plain) "c \<notin> {CHR 0x5C, CHR 0x22, CHR 0x08, CHR 0x0C, CHR 0x0A, CHR 0x0D, CHR 0x09}" "32 \<le> ?n" "?n \<le> 126"
    | (other) "c \<notin> {CHR 0x5C, CHR 0x22, CHR 0x08, CHR 0x0C, CHR 0x0A, CHR 0x0D, CHR 0x09}" "\<not> (32 \<le> ?n \<and> ?n \<le> 126)"
    by blast
  then show ?thesis
  proof cases
    case special
    then show ?thesis
      by (auto simp: escape_char_def unescape_def split: option.splits)
  next
    case plain
    then show ?thesis
      by (auto simp: escape_char_def split: option.splits)
  next
    case other
    have "escape_char c = [CHR 0x5C, CHR ''u'', CHR ''0'', CHR ''0'', hex_char (?n div 16), hex_char (?n mod 16)]"
      using other by (simp add: escape_char_def)
    then show ?thesis
      using hex4_byte[OF n] by (simp split: option.splits)
  qed
qed

lemma scanstring_escaped:
  "scanstring (concat (map escape_char s) @ CHR 0x22 # rest) = Some (s, rest)"
  by (induction s) (simp_all add: scanstring_escape_char)

lemma scanstring_encode_string:
  "scanstring (tl (encode_string s) @ rest) = Some (s, rest)"
  by (simp add: encode_string_def scanstring_escaped)

lemma encode_string_Cons: "encode_string s = CHR 0x22 # tl (encode_string s)"
  by (simp add: encode_string_def)

lemma is_digit_opener: "is_digit c \<Longrightarrow> opener c"
  by (auto simp: is_digit_def opener_def is_ws_def)

lemma json_dumps_Cons: "\<exists>c cs. json_dumps v = c # cs \<and> opener c"
proof (cases v)
  case (JInt i)
  obtain c cs where "str_int i = c # cs" "is_digit c \<or> c = CHR ''-''"
    using str_int_Cons by blast
  moreover have "opener (CHR ''-'')" by (simp add: opener_def is_ws_def)
  ultimately show ?thesis using JInt is_digit_opener by auto
qed (auto simp: opener_def is_ws_def encode_string_def)

lemma dumps_items_Cons: "\<exists>c cs. dumps_items (x # xs) = c # cs \<and> opener c"
  using json_dumps_Cons[of x] by (cases xs) auto

lemma dumps_members_Cons: "dumps_members (m # ms) = CHR 0x22 # tl (dumps_members (m # ms))"
  by (cases m; cases ms) (simp_all add: encode_string_def)

lemma skip_ws_opener: "opener c \<Longrightarrow> skip_ws (c # s) = c # s"
  by (simp add: skip_ws_def opener_def)

lemma skip_ws_space: "skip_ws (CHR '' '' # s) = skip_ws s"
  by (simp add: skip_ws_def is_ws_def)

lemma skip_ws_punct [simp]:
  "skip_ws (CHR '']'' # s) = CHR '']'' # s"
  "skip_ws (CHR ''}'' # s) = CHR ''}'' # s"
  "skip_ws (CHR '','' # s) = CHR '','' # s"
  "skip_ws (CHR '':'' # s) = CHR '':'' # s"
  "skip_ws (CHR 0x22 # s) = CHR 0x22 # s"
  by (simp_all add: skip_ws_def is_ws_def)

lemma start_ok_punct [simp]:
  "start_ok []"
  "start_ok (CHR '']'' # s)"
  "start_ok (CHR ''}'' # s)"
  "start_ok (CHR '','' # s)"
  by (simp_all add: start_ok_def is_digit_def)

lemma foldl_setitem_distinct:
  "distinct (map fst (d @ ps)) \<Longrightarrow> foldl (\<lambda>d (k, v). dict_setitem k v d) d ps = d @ ps"
proof (induction ps arbitrary: d)
  case Nil
  then show ?case by simp
next
  case (Cons p ps)
  obtain k v where p: "p = (k, v)" by (cases p)
  have "k \<notin> fst ` set d" using Cons.prems p by auto
  then have "dict_setitem k v d = d @ [(k, v)]" by (rule dict_setitem_fresh)
  moreover have "distinct (map fst ((d @ [(k, v)]) @ ps))" using Cons.prems p by simp
  ultimately show ?case using Cons.IH[of "d @ [(k, v)]"] p by simp
qed

lemma dict_of_pairs_distinct: "distinct (map fst ps) \<Longrightarrow> dict_of_pairs ps = ps"
  using foldl_setitem_distinct[of "[]" ps] by (simp add: dict_of_pairs_def)

lemma scan_once_value:
  "wf_json v \<Longrightarrow> length (json_dumps v) \<le> n \<Longrightarrow> start_ok rest
     \<Longrightarrow> scan_once n (json_dumps v @ rest) = Some (v, rest)"
  and parse_array_items:
  "xs \<noteq> [] \<Longrightarrow> wf_items xs \<Longrightarrow> length (dumps_items xs) < n
     \<Longrightarrow> parse_array n (dumps_items xs @ CHR '']'' # rest) = Some (xs, rest)"
  and parse_object_members:
  "ms \<noteq> [] \<Longrightarrow> wf_members ms \<Longrightarrow> length (dumps_members ms) \<le> n
     \<Longrightarrow> parse_object n (tl (dumps_members ms) @ CHR ''}'' # rest) = Some (ms, rest)"
proof (induction v and xs and ms arbitrary: n rest and n rest and n rest
    rule: json_dumps_dumps_items_dumps_members.induct)
  case 1
  then obtain n' where "n = Suc n'" by (cases n) auto
  then show ?case by simp
next
  case (2 b)
  then obtain n' where "n = Suc n'" by (cases n) (auto split: if_splits)
  then show ?case by simp
next
  case (3 i)
  obtain c cs where c: "str_int i = c # cs" "is_digit c \<or> c = CHR ''-''"
    using str_int_Cons by blast
  have "n \<noteq> 0" using "3.prems"(2) c(1) by auto
  then obtain n' where n: "n = Suc n'" by (cases n) simp_all
  have nc: "c \<noteq> CHR 0x22" "c \<noteq> CHR ''{''" "c \<noteq> CHR ''[''"
    "c \<noteq> CHR ''n''" "c \<noteq> CHR ''t''" "c \<noteq> CHR ''f''"
    using c(2) by (auto simp: is_digit_def)
  have "scan_once (Suc n') (c # cs @ rest) = scan_number (c # cs @ rest)"
    by (simp add: nc)
  then have "scan_once n (str_int i @ rest) = scan_number (str_int i @ rest)"
    by (simp add: n c(1))
  then show ?case using scan_number_str_int[OF "3.prems"(3), of i] by simp
next
  case (4 s)
  then obtain n' where n: "n = Suc n'" by (cases n) (auto simp: encode_string_def)
  show ?case
    unfolding n by (subst json_dumps.simps, subst encode_string_Cons)
      (simp add: scanstring_encode_string)
next
  case (5 xs)
  then obtain n' where n: "n = Suc n'" by (cases n) auto
  show ?case
  proof (cases xs)
    case Nil
    then show ?thesis using n by simp
  next
    case (Cons y ys)
    obtain c cs where c: "dumps_items xs = c # cs" "opener c"
      using dumps_items_Cons Cons by blast
    have "parse_array n' (dumps_items xs @ CHR '']'' # rest) = Some (xs, rest)"
      using "5.IH"[of n' rest] "5.prems" Cons n by simp
    then show ?thesis using n c skip_ws_opener[OF c(2)]
      by (simp add: opener_def)
  qed
next
  case (6 d)
  then obtain n' where n: "n = Suc n'" by (cases n) auto
  show ?case
  proof (cases d)
    case Nil
    then show ?thesis using n by simp
  next
    case (Cons m ms)
    have c: "dumps_members d = CHR 0x22 # tl (dumps_members d)"
      using dumps_members_Cons Cons by blast
    have "parse_object n' (tl (dumps_members d) @ CHR ''}'' # rest) = Some (d, rest)"
      using "6.IH"[of n' rest] "6.prems" Cons n by simp
    moreover have "dict_of_pairs d = d"
      using "6.prems"(1) by (simp add: dict_of_pairs_distinct)
    ultimately show ?thesis using n
      by (subst json_dumps.simps, subst c) simp
  qed
next
  case 7
  then show ?case by simp
next
  case (8 x)
  then obtain n' where n: "n = Suc n'" by (cases n) auto
  have "scan_once n' (json_dumps x @ CHR '']'' # rest) = Some (x, CHR '']'' # rest)"
    using "8.IH"[of n' "CHR '']'' # rest"] "8.prems" n by simp
  then show ?case using n by simp
next
  case (9 x y ys)
  then obtain n' where n: "n = Suc n'" by (cases n) auto
  let ?t = "dumps_items (y # ys) @ CHR '']'' # rest"
  obtain c cs where c: "dumps_items (y # ys) = c # cs" "opener c"
    using dumps_items_Cons by blast
  have "scan_once n' (json_dumps x @ CHR '','' # CHR '' '' # ?t) = Some (x, CHR '','' # CHR '' '' # ?t)"
    using "9.IH"(1)[of n' "CHR '','' # CHR '' '' # ?t"] "9.prems" n by simp
  moreover have "parse_array n' ?t = Some (y # ys, rest)"
    using "9.IH"(2)[of n' rest] "9.prems" n by simp
  moreover have "skip_ws (CHR '' '' # ?t) = ?t"
    using c skip_ws_opener[OF c(2)] by (simp add: skip_ws_space)
  ultimately show ?case using n by simp
next
  case 10
  then show ?case by simp
next
  case (11 k v)
  then obtain n' where n: "n = Suc n'" by (cases n) auto
  obtain c cs where c: "json_dumps v = c # cs" "opener c"
    using json_dumps_Cons by blast
  let ?t = "json_dumps v @ CHR ''}'' # rest"
  have s: "scanstring (tl (encode_string k) @ CHR '':'' # CHR '' '' # ?t) = Some (k, CHR '':'' # CHR '' '' # ?t)"
    by (rule scanstring_encode_string)
  have "scan_once n' ?t = Some (v, CHR ''}'' # rest)"
    using "11.IH"[of n' "CHR ''}'' # rest"] "11.prems" n by simp
  moreover have "skip_ws (CHR '' '' # ?t) = ?t"
    using c skip_ws_opener[OF c(2)] by (simp add: skip_ws_space)
  moreover have "tl (dumps_members [(k, v)]) @ CHR ''}'' # rest
      = tl (encode_string k) @ CHR '':'' # CHR '' '' # ?t"
    by (simp add: encode_string_def)
  ultimately show ?case using n s by simp
next
  case (12 k v m ms)
  then obtain n' where n: "n = Suc n'" by (cases n) auto
  obtain c cs where c: "json_dumps v = c # cs" "opener c"
    using json_dumps_Cons by blast
  obtain q where q: "dumps_members (m # ms) = CHR 0x22 # q"
    using dumps_members_Cons by blast
  let ?w = "q @ CHR ''}'' # rest"
  let ?u = "dumps_members (m # ms) @ CHR ''}'' # rest"
  let ?t = "json_dumps v @ CHR '','' # CHR '' '' # ?u"
  have s: "scanstring (tl (encode_string k) @ CHR '':'' # CHR '' '' # ?t) = Some (k, CHR '':'' # CHR '' '' # ?t)"
    by (rule scanstring_encode_string)
  have A: "scan_once n' ?t = Some (v, CHR '','' # CHR '' '' # ?u)"
    using "12.IH"(1)[of n' "CHR '','' # CHR '' '' # ?u"] "12.prems" n by simp
  have B: "skip_ws (CHR '' '' # ?t) = ?t"
    using c skip_ws_opener[OF c(2)] by (simp add: skip_ws_space)
  have sk: "skip_ws (CHR '' '' # ?u) = CHR 0x22 # ?w"
    by (simp add: skip_ws_space q)
  have C: "parse_object n' ?w = Some (m # ms, rest)"
    using "12.IH"(2)[of n' rest] "12.prems" n by (simp add: q)
  have shape: "tl (dumps_members ((k, v) # m # ms)) @ CHR ''}'' # rest
      = tl (encode_string k) @ CHR '':'' # CHR '' '' # ?t"
    by (simp add: encode_string_def)
  show ?case unfolding n shape
    by (simp add: s A B sk C del: dumps_items.simps dumps_members.simps)
qed

lemma json_roundtrip: "wf_json v \<Longrightarrow> json_loads (json_dumps v) = Some v"
proof -
  assume wf: "wf_json v"
  obtain c cs where c: "json_dumps v = c # cs" "opener c"
    using json_dumps_Cons by blast
  have "scan_once (length (json_dumps v)) (json_dumps v @ []) = Some (v, [])"
    using wf by (intro scan_once_value) simp_all
  moreover have "skip_ws (json_dumps v) = json_dumps v"
    using c skip_ws_opener by simp
  ultimately show ?thesis by (simp add: json_loads_def skip_ws_def)
qed

section \<open>Dispatch\<close>

lemma committed_append: "committed (T @ U) = committed T @ committed U"
  by (induction T rule: committed.induct) auto

lemma committed_keys: "fst ` set (committed T) \<subseteq> fst ` set T"
  by (induction T rule: committed.induct) auto

lemma fst_recorded: "fst (recorded e) = fst e"
  by (cases e rule: recorded.cases) auto

lemma dispatch_trace:
  assumes "agent_findings dm = Some f"
      and "distinct (map agent_name as)"
      and "agent_name ` set as \<inter> fst ` set results = {}"
      and "agent_name ` set as \<inter> fst ` set f = {}"
  shows "\<exists>T. dispatch issue as (results, dm, w) =
            (results @ map recorded T, dm\<lparr>agent_findings := Some (f @ committed T)\<rparr>,
             w\<lparr>run_log := run_log w @ T\<rparr>)
         \<and> map fst T = map agent_name as
         \<and> (\<forall>i<length as. fst (snd (T ! i)) = Context_Prompt issue (f @ committed (take i T))
              \<and> snd (snd (T ! i)) = agent_run w (run_log w @ take i T) (as ! i) (fst (snd (T ! i))))"
  using assms
proof (induction as arbitrary: results dm f w)
  case Nil
  show ?case by (rule exI[of _ "[]"]) (simp add: Nil.prems(1)[symmetric])
next
  case (Cons a as)
  let ?p = "Context_Prompt issue f"
  let ?out = "agent_run w (run_log w) a ?p"
  let ?e = "(agent_name a, ?p, ?out)"
  let ?w = "w\<lparr>run_log := run_log w @ [?e]\<rparr>"
  have fresh_r: "agent_name a \<notin> fst ` set results" and fresh_f: "agent_name a \<notin> fst ` set f"
    using Cons.prems by auto
  have step: "analyze issue a (results, dm, w) =
      (results @ [recorded ?e], dm\<lparr>agent_findings := Some (f @ committed [?e])\<rparr>, ?w)"
    using Cons.prems(1) fresh_r fresh_f
    by (cases ?out) (simp_all add: analyze_def run_def get_agent_findings_def Let_def dict_setitem_fresh)
  let ?dm = "dm\<lparr>agent_findings := Some (f @ committed [?e])\<rparr>"
  have p1: "agent_findings ?dm = Some (f @ committed [?e])" by simp
  have p2: "distinct (map agent_name as)" using Cons.prems by simp
  have p3: "agent_name ` set as \<inter> fst ` set (results @ [recorded ?e]) = {}"
    using Cons.prems by (auto simp: fst_recorded)
  have p4: "agent_name ` set as \<inter> fst ` set (f @ committed [?e]) = {}"
    using Cons.prems by (cases ?out) auto
  from Cons.IH[OF p1 p2 p3 p4, of ?w] obtain T where
    T1: "dispatch issue as (results @ [recorded ?e], ?dm, ?w) =
          ((results @ [recorded ?e]) @ map recorded T,
           ?dm\<lparr>agent_findings := Some ((f @ committed [?e]) @ committed T)\<rparr>,
           ?w\<lparr>run_log := run_log ?w @ T\<rparr>)"
    and T2: "map fst T = map agent_name as"
    and T3: "\<forall>i<length as. fst (snd (T ! i)) = Context_Prompt issue ((f @ committed [?e]) @ committed (take i T))
              \<and> snd (snd (T ! i)) = agent_run ?w (run_log ?w @ take i T) (as ! i) (fst (snd (T ! i)))"
    by blast
  show ?case
  proof (rule exI[of _ "?e # T"], intro conjI allI impI)
    show "dispatch issue (a # as) (results, dm, w) =
      (results @ map recorded (?e # T), dm\<lparr>agent_findings := Some (f @ committed (?e # T))\<rparr>,
       w\<lparr>run_log := run_log w @ ?e # T\<rparr>)"
      using T1 step committed_append[of "[?e]" T] by simp
    show "map fst (?e # T) = map agent_name (a # as)" using T2 by simp
  next
    fix i assume i: "i < length (a # as)"
    show "fst (snd ((?e # T) ! i)) = Context_Prompt issue (f @ committed (take i (?e # T)))"
    proof (cases i)
      case 0 then show ?thesis by simp
    next
      case (Suc j)
      then have "j < length as" using i by simp
      with T3 have "fst (snd (T ! j)) = Context_Prompt issue ((f @ committed [?e]) @ committed (take j T))" by blast
      then show ?thesis using Suc committed_append[of "[?e]" "take j T"] by simp
    qed
    show "snd (snd ((?e # T) ! i)) = agent_run w (run_log w @ take i (?e # T)) ((a # as) ! i) (fst (snd ((?e # T) ! i)))"
    proof (cases i)
      case 0 then show ?thesis by simp
    next
      case (Suc j)
      then have "j < length as" using i by simp
      with T3 have "snd (snd (T ! j)) = agent_run ?w (run_log ?w @ take j T) (as ! j) (fst (snd (T ! j)))" by blast
      then show ?thesis using Suc by simp
    qed
  qed
qed

lemma dict_setitem_subset: "set (dict_setitem k v d) \<subseteq> insert (k, v) (set d)"
  by (induction d) (auto split: if_splits)

lemma committed_take_Suc:
  "i < length T \<Longrightarrow> set (committed (take i T)) \<subseteq> set (committed (take (Suc i) T))"
  by (simp add: take_Suc_conv_app_nth committed_append)

lemma dispatch_trace_any:
  assumes "agent_findings dm = Some f"
  shows "\<exists>T res dm'. dispatch issue as (results, dm, w) = (res, dm', w\<lparr>run_log := run_log w @ T\<rparr>)
         \<and> map fst T = map agent_name as
         \<and> (\<forall>i<length as. \<exists>fs. fst (snd (T ! i)) = Context_Prompt issue fs
                \<and> set fs \<subseteq> set f \<union> set (committed (take i T)))
         \<and> (\<forall>a as'. as = a # as' \<longrightarrow> fst (snd (T ! 0)) = Context_Prompt issue f)"
  using assms
proof (induction as arbitrary: results dm f w)
  case Nil
  show ?case by (intro exI[of _ "[]"] exI[of _ results] exI[of _ dm]) simp
next
  case (Cons a as)
  let ?p = "Context_Prompt issue f"
  let ?out = "agent_run w (run_log w) a ?p"
  let ?e = "(agent_name a, ?p, ?out)"
  let ?w = "w\<lparr>run_log := run_log w @ [?e]\<rparr>"
  obtain res1 f1 where step: "analyze issue a (results, dm, w) = (res1, dm\<lparr>agent_findings := Some f1\<rparr>, ?w)"
    and f1: "set f1 \<subseteq> set f \<union> set (committed [?e])"
  proof (cases ?out)
    case (Inl e)
    have "analyze issue a (results, dm, w) =
        (dict_setitem (agent_name a) (JStr (''Error: '' @ e)) results, dm\<lparr>agent_findings := Some f\<rparr>, ?w)"
      using Inl Cons.prems by (simp add: analyze_def run_def get_agent_findings_def Let_def)
    then show thesis using that[of _ f] by simp
  next
    case (Inr r)
    have "analyze issue a (results, dm, w) =
        (dict_setitem (agent_name a) r results,
         dm\<lparr>agent_findings := Some (dict_setitem (agent_name a) r f)\<rparr>, ?w)"
      using Inr Cons.prems by (simp add: analyze_def run_def get_agent_findings_def Let_def)
    moreover have "set (dict_setitem (agent_name a) r f) \<subseteq> set f \<union> set (committed [?e])"
      using Inr dict_setitem_subset[of "agent_name a" r f] by auto
    ultimately show thesis using that by blast
  qed
  have p1: "agent_findings (dm\<lparr>agent_findings := Some f1\<rparr>) = Some f1" by simp
  from Cons.IH[OF p1, of res1 ?w] obtain T res dm' where
    T1: "dispatch issue as (res1, dm\<lparr>agent_findings := Some f1\<rparr>, ?w) = (res, dm', ?w\<lparr>run_log := run_log ?w @ T\<rparr>)"
    and T2: "map fst T = map agent_name as"
    and T3: "\<forall>i<length as. \<exists>fs. fst (snd (T ! i)) = Context_Prompt issue fs
                \<and> set fs \<subseteq> set f1 \<union> set (committed (take i T))"
    by blast
  show ?case
  proof (rule exI[of _ "?e # T"], rule exI[of _ res], rule exI[of _ dm'], intro conjI allI impI)
    show "dispatch issue (a # as) (results, dm, w) = (res, dm', w\<lparr>run_log := run_log w @ ?e # T\<rparr>)"
      using T1 step by simp
    show "map fst (?e # T) = map agent_name (a # as)" using T2 by simp
    show "fst (snd ((?e # T) ! 0)) = Context_Prompt issue f" by simp
  next
    fix i assume i: "i < length (a # as)"
    show "\<exists>fs. fst (snd ((?e # T) ! i)) = Context_Prompt issue fs
                \<and> set fs \<subseteq> set f \<union> set (committed (take i (?e # T)))"
    proof (cases i)
      case 0 then show ?thesis by simp
    next
      case (Suc j)
      then have "j < length as" using i by simp
      with T3 obtain fs where fs: "fst (snd (T ! j)) = Context_Prompt issue fs"
        "set fs \<subseteq> set f1 \<union> set (committed (take j T))" by blast
      have "set (committed (take i (?e # T))) = set (committed [?e]) \<union> set (committed (take j T))"
        using Suc committed_append[of "[?e]" "take j T"] by simp
      with fs f1 have "set fs \<subseteq> set f \<union> set (committed (take i (?e # T)))" by blast
      with fs(1) Suc show ?thesis by simp
    qed
  qed
qed

lemma calls_append [simp]: "calls w (w\<lparr>run_log := run_log w @ T\<rparr>) = T"
  by (simp add: calls_def)

lemma coordinate_debugging_trace:
  assumes "distinct (map agent_name (agents sw))"
  shows "\<exists>T. coordinate_debugging w sw issue =
            (map recorded T,
             sw\<lparr>debug_memory := \<lparr>current_issue = Some issue, agent_findings = Some (committed T)\<rparr>\<rparr>,
             w\<lparr>run_log := run_log w @ T\<rparr>)
         \<and> map fst T = map agent_name (agents sw)
         \<and> (\<forall>i<length (agents sw). fst (snd (T ! i)) = Context_Prompt issue (committed (take i T))
              \<and> snd (snd (T ! i)) = agent_run w (run_log w @ take i T) (agents sw ! i) (fst (snd (T ! i))))"
proof -
  let ?dm = "(debug_memory sw)\<lparr>current_issue := Some issue, agent_findings := Some []\<rparr>"
  have "agent_findings ?dm = Some []" by simp
  from dispatch_trace[OF this assms, of "[]" issue w] obtain T where
    T: "dispatch issue (agents sw) ([], ?dm, w) =
          ([] @ map recorded T, ?dm\<lparr>agent_findings := Some ([] @ committed T)\<rparr>, w\<lparr>run_log := run_log w @ T\<rparr>)"
      "map fst T = map agent_name (agents sw)"
      "\<forall>i<length (agents sw). fst (snd (T ! i)) = Context_Prompt issue ([] @ committed (take i T))
              \<and> snd (snd (T ! i)) = agent_run w (run_log w @ take i T) (agents sw ! i) (fst (snd (T ! i)))"
    by auto
  have "coordinate_debugging w sw issue =
            (map recorded T,
             sw\<lparr>debug_memory := \<lparr>current_issue = Some issue, agent_findings = Some (committed T)\<rparr>\<rparr>,
             w\<lparr>run_log := run_log w @ T\<rparr>)"
    using T(1) by (simp add: coordinate_debugging_def)
  with T(2,3) show ?thesis by auto
qed

lemma coordinate_debugging_any:
  "\<exists>T res sw'. coordinate_debugging w sw issue = (res, sw', w\<lparr>run_log := run_log w @ T\<rparr>)
         \<and> map fst T = map agent_name (agents sw)
         \<and> (\<forall>i<length (agents sw). \<exists>fs. fst (snd (T ! i)) = Context_Prompt issue fs
                \<and> set fs \<subseteq> set (committed (take i T)))
         \<and> (\<forall>a as'. agents sw = a # as' \<longrightarrow> fst (snd (T ! 0)) = Context_Prompt issue [])"
proof -
  let ?dm = "(debug_memory sw)\<lparr>current_issue := Some issue, agent_findings := Some []\<rparr>"
  have "agent_findings ?dm = Some []" by simp
  from dispatch_trace_any[OF this, of issue "agents sw" "[]" w] obtain T res dm' where
    T: "dispatch issue (agents sw) ([], ?dm, w) = (res, dm', w\<lparr>run_log := run_log w @ T\<rparr>)"
      "map fst T = map agent_name (agents sw)"
      "\<forall>i<length (agents sw). \<exists>fs. fst (snd (T ! i)) = Context_Prompt issue fs
                \<and> set fs \<subseteq> set [] \<union> set (committed (take i T))"
      "\<forall>a as'. agents sw = a # as' \<longrightarrow> fst (snd (T ! 0)) = Context_Prompt issue []"
    by blast
  have "coordinate_debugging w sw issue = (res, sw\<lparr>debug_memory := dm'\<rparr>, w\<lparr>run_log := run_log w @ T\<rparr>)"
    using T(1) by (simp add: coordinate_debugging_def)
  with T(2,3,4) show ?thesis by auto
qed

section \<open>Claims about the dispatch loop\<close>

text \<open>
  C3. In a dispatch over workers with distinct names, the calls of \<open>agent.run\<close> are
  the workers in registry order, and the context prompt of worker \<open>i\<close> carries
  exactly the results committed by the workers before it (those of the earlier calls that
  returned), in order; no worker at position \<open>i\<close> or later has an entry in it.
\<close>

theorem visibility_ordering:
  assumes "distinct (map agent_name (agents sw))"
      and "coordinate_debugging w sw issue = (results, sw', w')"
  shows "map fst (calls w w') = map agent_name (agents sw)
       \<and> (\<forall>i<length (agents sw).
             fst (snd (calls w w' ! i)) = Context_Prompt issue (committed (take i (calls w w')))
           \<and> (\<forall>j<length (agents sw). i \<le> j \<longrightarrow>
                 agent_name (agents sw ! j) \<notin> fst ` set (committed (take i (calls w w')))))"
proof -
  from coordinate_debugging_trace[OF assms(1), of w issue] assms(2) obtain T where
    T: "w' = w\<lparr>run_log := run_log w @ T\<rparr>" "map fst T = map agent_name (agents sw)"
       "\<forall>i<length (agents sw). fst (snd (T ! i)) = Context_Prompt issue (committed (take i T))"
    by auto
  have len: "length T = length (agents sw)" using T(2) by (metis length_map)
  have keys: "agent_name (agents sw ! j) \<notin> fst ` set (committed (take i T))"
    if "j < length (agents sw)" "i \<le> j" for i j
  proof
    assume "agent_name (agents sw ! j) \<in> fst ` set (committed (take i T))"
    then have "agent_name (agents sw ! j) \<in> fst ` set (take i T)"
      using committed_keys by blast
    then have "agent_name (agents sw ! j) \<in> set (take i (map agent_name (agents sw)))"
      using T(2) by (metis set_map take_map)
    then obtain k where k: "k < i" "k < length (agents sw)"
        "map agent_name (agents sw) ! k = agent_name (agents sw ! j)"
      by (auto simp: in_set_conv_nth)
    then have "map agent_name (agents sw) ! k = map agent_name (agents sw) ! j"
      using that by simp
    then have "k = j"
      using nth_eq_iff_index_eq[OF assms(1), of k j] k(2) that(1) by simp
    then show False using k(1) that(2) by simp
  qed
  show ?thesis unfolding T(1) calls_append using T(2,3) keys by blast
qed

text \<open>
  C4. When the call of worker \<open>j\<close> raises with message \<open>e\<close>, the result mapping
  holds \<open>Error: e\<close> under that worker's name, every worker is still called, and the
  mapping holds for every worker its own outcome, in registry order.
\<close>

theorem worker_isolation:
  assumes "distinct (map agent_name (agents sw))"
      and "coordinate_debugging w sw issue = (results, sw', w')"
      and "j < length (agents sw)"
      and "snd (snd (calls w w' ! j)) = Inl e"
  shows "map fst (calls w w') = map agent_name (agents sw)
       \<and> map fst results = map agent_name (agents sw)
       \<and> results ! j = (agent_name (agents sw ! j), JStr (''Error: '' @ e))
       \<and> (\<forall>k<length (agents sw). results ! k = recorded (calls w w' ! k))"
proof -
  from coordinate_debugging_trace[OF assms(1), of w issue] assms(2) obtain T where
    T: "w' = w\<lparr>run_log := run_log w @ T\<rparr>" "map fst T = map agent_name (agents sw)"
       "results = map recorded T"
    by auto
  have len: "length T = length (agents sw)" using T(2) by (metis length_map)
  have c: "calls w w' = T" unfolding T(1) by simp
  have "fst (T ! j) = agent_name (agents sw ! j)"
    using T(2) assms(3) len by (metis nth_map)
  then have "recorded (T ! j) = (agent_name (agents sw ! j), JStr (''Error: '' @ e))"
    using assms(4) unfolding c by (cases "T ! j") auto
  moreover have "map fst results = map agent_name (agents sw)"
    using T(2,3) by (simp add: comp_def fst_recorded)
  ultimately show ?thesis unfolding c using T len assms(3) by simp
qed

text \<open>
  C10. \<open>coordinate_debugging\<close> starts from empty findings whatever an earlier dispatch
  left in \<open>debug_memory\<close>: the outcome is the same for every earlier memory, the
  first worker's prompt has no findings, and the findings of every prompt come from calls
  of this dispatch only.
\<close>

theorem findings_reset:
  assumes "coordinate_debugging w sw issue = (results, sw', w')"
  shows "coordinate_debugging w (sw\<lparr>debug_memory := dm\<rparr>) issue = (results, sw', w')
       \<and> (\<forall>a as. agents sw = a # as \<longrightarrow>
             fst (snd (calls w w' ! 0)) = Context_Prompt issue [])
       \<and> (\<forall>i<length (agents sw). \<exists>fs.
             fst (snd (calls w w' ! i)) = Context_Prompt issue fs
           \<and> set fs \<subseteq> set (committed (take i (calls w w'))))"
proof -
  have reset: "d\<lparr>current_issue := Some issue, agent_findings := Some []\<rparr>
      = \<lparr>current_issue = Some issue, agent_findings = Some []\<rparr>" for d :: debug_memory
    by (cases d) simp
  have same: "coordinate_debugging w (sw\<lparr>debug_memory := dm\<rparr>) issue = coordinate_debugging w sw issue"
    by (simp add: coordinate_debugging_def reset[of dm] reset[of "debug_memory sw"] split: prod.splits)
  from coordinate_debugging_any[of w sw issue] assms obtain T where
    T: "w' = w\<lparr>run_log := run_log w @ T\<rparr>"
       "\<forall>i<length (agents sw). \<exists>fs. fst (snd (T ! i)) = Context_Prompt issue fs
                \<and> set fs \<subseteq> set (committed (take i T))"
       "\<forall>a as'. agents sw = a # as' \<longrightarrow> fst (snd (T ! 0)) = Context_Prompt issue []"
    by auto
  have c: "calls w w' = T" unfolding T(1) by simp
  show ?thesis using same assms T(2,3) by (simp add: c)
qed

lemmas scenario_defs = abc_swarm_def echo_world_def faulty_world_def TerminalDebugSwarm_def
  coordinate_debugging_def analyze_def run_def get_agent_findings_def calls_def Let_def

theorem visibility_ordering_witness:
  "distinct (map agent_name (agents abc_swarm))
   \<and> (case coordinate_debugging echo_world abc_swarm ''tabs'' of (results, sw', w') \<Rightarrow>
        fst (snd (calls echo_world w' ! 1)) = Context_Prompt ''tabs'' [(''A'', JStr ''seen by A'')]
      \<and> fst (snd (calls echo_world w' ! 2)) =
          Context_Prompt ''tabs'' [(''A'', JStr ''seen by A''), (''B'', JStr ''seen by B'')]
      \<and> ''C'' \<notin> fst ` set (committed (take 1 (calls echo_world w'))))"
proof -
  obtain results sw' w' where
    ev: "coordinate_debugging echo_world abc_swarm ''tabs'' = (results, sw', w')"
    by (cases "coordinate_debugging echo_world abc_swarm ''tabs''")
  have d: "distinct (map agent_name (agents abc_swarm))"
    by (simp add: abc_swarm_def)
  have w': "calls echo_world w' =
     [(''A'', Context_Prompt ''tabs'' [], Inr (JStr ''seen by A'')),
      (''B'', Context_Prompt ''tabs'' [(''A'', JStr ''seen by A'')], Inr (JStr ''seen by B'')),
      (''C'', Context_Prompt ''tabs'' [(''A'', JStr ''seen by A''), (''B'', JStr ''seen by B'')],
        Inr (JStr ''seen by C''))]"
    using ev by (auto simp: scenario_defs)
  have n: "length (agents abc_swarm) = 3" "agents abc_swarm ! 2 = \<lparr>agent_name = ''C'', system_prompt = ''third'', max_loops = 3\<rparr>"
    by (simp_all add: abc_swarm_def)
  from visibility_ordering[OF d ev]
  have "\<forall>i<3. fst (snd (calls echo_world w' ! i)) = Context_Prompt ''tabs'' (committed (take i (calls echo_world w')))
        \<and> (\<forall>j<3. i \<le> j \<longrightarrow> agent_name (agents abc_swarm ! j) \<notin> fst ` set (committed (take i (calls echo_world w'))))"
    unfolding n by blast
  then have "fst (snd (calls echo_world w' ! 1)) = Context_Prompt ''tabs'' (committed (take 1 (calls echo_world w')))"
    "fst (snd (calls echo_world w' ! 2)) = Context_Prompt ''tabs'' (committed (take 2 (calls echo_world w')))"
    "agent_name (agents abc_swarm ! 2) \<notin> fst ` set (committed (take 1 (calls echo_world w')))"
    by auto
  then show ?thesis using d unfolding ev n by (simp add: w')
qed

theorem worker_isolation_witness:
  "distinct (map agent_name (agents abc_swarm))
   \<and> (case coordinate_debugging faulty_world abc_swarm ''tabs'' of (results, sw', w') \<Rightarrow>
        snd (snd (calls faulty_world w' ! 1)) = Inl ''boom''
      \<and> results = [(''A'', JStr ''seen by A''), (''B'', JStr ''Error: boom''), (''C'', JStr ''seen by C'')])"
proof -
  obtain results sw' w' where
    ev: "coordinate_debugging faulty_world abc_swarm ''tabs'' = (results, sw', w')"
    by (cases "coordinate_debugging faulty_world abc_swarm ''tabs''")
  have d: "distinct (map agent_name (agents abc_swarm))"
    by (simp add: abc_swarm_def)
  have w': "calls faulty_world w' =
     [(''A'', Context_Prompt ''tabs'' [], Inr (JStr ''seen by A'')),
      (''B'', Context_Prompt ''tabs'' [(''A'', JStr ''seen by A'')], Inl ''boom''),
      (''C'', Context_Prompt ''tabs'' [(''A'', JStr ''seen by A'')], Inr (JStr ''seen by C''))]"
    using ev by (auto simp: scenario_defs)
  have j: "(1::nat) < length (agents abc_swarm)" by (simp add: abc_swarm_def)
  have e: "snd (snd (calls faulty_world w' ! 1)) = Inl ''boom''" by (simp add: w')
  have n: "length (agents abc_swarm) = 3" by (simp add: abc_swarm_def)
  from worker_isolation[OF d ev j e]
  have "map fst results = map agent_name (agents abc_swarm)"
       "\<forall>k<3. results ! k = recorded (calls faulty_world w' ! k)"
    unfolding n by blast+
  then have "length results = 3" "results ! 0 = recorded (calls faulty_world w' ! 0)"
    "results ! 1 = recorded (calls faulty_world w' ! 1)" "results ! 2 = recorded (calls faulty_world w' ! 2)"
    using n by (auto dest: arg_cong[where f = length])
  then have "results = [(''A'', JStr ''seen by A''), (''B'', JStr ''Error: boom''), (''C'', JStr ''seen by C'')]"
    by (simp add: w' list_eq_iff_nth_eq less_Suc_eq numeral_3_eq_3 numeral_2_eq_2)
  then show ?thesis using d e unfolding ev by simp
qed

theorem findings_reset_witness:
  "(case coordinate_debugging echo_world abc_swarm ''tabs'' of (results1, sw1, w1) \<Rightarrow>
      agent_findings (debug_memory sw1) \<noteq> Some []
    \<and> (case coordinate_debugging w1 sw1 ''scroll'' of (results2, sw2, w2) \<Rightarrow>
         fst (snd (calls w1 w2 ! 0)) = Context_Prompt ''scroll'' []
       \<and> coordinate_debugging w1 abc_swarm ''scroll'' = (results2, sw2, w2)))"
proof -
  obtain results1 sw1 w1 where
    ev1: "coordinate_debugging echo_world abc_swarm ''tabs'' = (results1, sw1, w1)"
    by (cases "coordinate_debugging echo_world abc_swarm ''tabs''")
  obtain results2 sw2 w2 where
    ev2: "coordinate_debugging w1 sw1 ''scroll'' = (results2, sw2, w2)"
    by (cases "coordinate_debugging w1 sw1 ''scroll''")
  have sw1: "sw1 = abc_swarm\<lparr>debug_memory := debug_memory sw1\<rparr>"
    "agent_findings (debug_memory sw1) \<noteq> Some []"
    using ev1 by (auto simp: scenario_defs)
  have a: "agents sw1 = hd (agents abc_swarm) # tl (agents abc_swarm)"
    using ev1 by (auto simp: scenario_defs)
  from findings_reset[OF ev2, of "debug_memory abc_swarm"] a
  have "coordinate_debugging w1 (sw1\<lparr>debug_memory := debug_memory abc_swarm\<rparr>) ''scroll'' = (results2, sw2, w2)"
    "fst (snd (calls w1 w2 ! 0)) = Context_Prompt ''scroll'' []"
    by blast+
  moreover have "sw1\<lparr>debug_memory := debug_memory abc_swarm\<rparr> = abc_swarm"
    using sw1(1) by (metis swarm.surjective swarm.update_convs(3))
  ultimately show ?thesis using sw1(2) unfolding ev1 by (simp add: ev2)
qed

section \<open>The memory store\<close>

lemma store_ok:
  "store_coordination_memory w c k v = (ok, w') \<Longrightarrow> ok = (\<not> db_fails w (memory_db_path c))"
  by (auto simp: store_coordination_memory_def Let_def split: if_splits)

lemma store_success:
  assumes "store_coordination_memory w c k v = (True, w')"
  shows "\<exists>t. files w' (memory_db_path c) = Some (Some t)
           \<and> t k = Some \<lparr>row_value = json_dumps v, row_timestamp = now_iso w, row_ttl = None\<rparr>"
    and "db_fails w' = db_fails w" and "\<not> db_fails w (memory_db_path c)"
  using assms by (auto simp: store_coordination_memory_def Let_def split: if_splits)

lemma load_after_store:
  assumes "wf_json v"
      and "store_coordination_memory w c k v = (True, w')"
  shows "load_coordination_memory w' c k = v"
proof -
  from store_success[OF assms(2)] obtain t where
    t: "files w' (memory_db_path c) = Some (Some t)"
       "t k = Some \<lparr>row_value = json_dumps v, row_timestamp = now_iso w, row_ttl = None\<rparr>"
    and f: "\<not> db_fails w' (memory_db_path c)"
    by auto
  show ?thesis
    using t f json_roundtrip[OF assms(1)] by (simp add: load_coordination_memory_def)
qed

lemma store_files_eq:
  "\<not> db_fails w (memory_db_path c) \<Longrightarrow>
   files (snd (store_coordination_memory w c k v)) =
     (files w)(memory_db_path c \<mapsto>
        Some ((case files w (memory_db_path c) of Some (Some t) \<Rightarrow> t | _ \<Rightarrow> Map.empty)
               (k \<mapsto> \<lparr>row_value = json_dumps v, row_timestamp = now_iso w, row_ttl = None\<rparr>)))"
  by (simp add: store_coordination_memory_def Let_def)

lemma load_eq:
  assumes "files w' = files w" "db_fails w' = db_fails w" "memory_db_path c' = memory_db_path c"
  shows "load_coordination_memory w' c' k = load_coordination_memory w c k"
  using assms by (simp add: load_coordination_memory_def split: option.splits)

lemma hook_fields:
  "claude_flow_hook w c n p = (b, c') \<Longrightarrow> memory_db_path c' = memory_db_path c \<and> swarm c' = swarm c"
  by (auto simp: claude_flow_hook_def Let_def split: process_result.splits if_splits)

lemma store_frame:
  "store_coordination_memory w c k v = (ok, w') \<Longrightarrow> agent_run w' = agent_run w \<and> run_log w' = run_log w"
  by (auto simp: store_coordination_memory_def Let_def split: if_splits)

lemma store_files:
  assumes "memory_db_path c' = memory_db_path c" "files w' = files w" "db_fails w' = db_fails w"
    "now_iso w' = now_iso w"
  shows "files (snd (store_coordination_memory w' c' k v)) = files (snd (store_coordination_memory w c k v))"
    and "db_fails (snd (store_coordination_memory w' c' k v)) = db_fails w"
  using assms by (simp_all add: store_coordination_memory_def Let_def)

lemma map_of_dict_setitem: "map_of (dict_setitem k v d) = (map_of d)(k \<mapsto> v)"
  by (induction d) auto

section \<open>Claims about the memory store\<close>


text \<open>
  C8. After two writes under the same key, the second of which returned \<open>True\<close>,
  reading the key returns the second value, and the files are what the second write
  alone would have left: nothing of the first value is kept.
\<close>

theorem store_overwrite:
  assumes "wf_json v2"
      and "store_coordination_memory w c k v1 = (ok1, w1)"
      and "store_coordination_memory w1 c k v2 = (True, w2)"
  shows "load_coordination_memory w2 c k = v2
       \<and> files w2 = files (snd (store_coordination_memory w c k v2))"
proof -
  have "load_coordination_memory w2 c k = v2"
    using assms(1,3) by (rule load_after_store)
  moreover have "files w2 = files (snd (store_coordination_memory w c k v2))"
    using assms(2,3)
    by (auto simp: store_coordination_memory_def Let_def split: if_splits option.splits)
  ultimately show ?thesis by simp
qed


theorem store_overwrite_witness:
  "wf_json (JList [JInt 2])
   \<and> fst (store_coordination_memory (seeded_world (JInt 1)) abc_coordinator
          ''swarms/debugging/context'' (JList [JInt 2]))
   \<and> load_coordination_memory
         (snd (store_coordination_memory (seeded_world (JInt 1)) abc_coordinator
                ''swarms/debugging/context'' (JList [JInt 2])))
         abc_coordinator ''swarms/debugging/context''
       = JList [JInt 2]"
proof -
  let ?w1 = "seeded_world (JInt 1)"
  let ?k = "''swarms/debugging/context''"
  have wf: "wf_json (JList [JInt 2])" by simp
  obtain ok1 where s1: "store_coordination_memory echo_world abc_coordinator ?k (JInt 1) = (ok1, ?w1)"
    unfolding seeded_world_def
    by (cases "store_coordination_memory echo_world abc_coordinator ?k (JInt 1)") simp
  have ok: "fst (store_coordination_memory ?w1 abc_coordinator ?k (JList [JInt 2]))"
    by (simp add: seeded_world_def store_coordination_memory_def echo_world_def Let_def)
  then have s2: "store_coordination_memory ?w1 abc_coordinator ?k (JList [JInt 2])
      = (True, snd (store_coordination_memory ?w1 abc_coordinator ?k (JList [JInt 2])))"
    by (cases "store_coordination_memory ?w1 abc_coordinator ?k (JList [JInt 2])") simp
  from store_overwrite[OF wf s1 s2] wf ok show ?thesis by simp
qed

section \<open>Sessions\<close>

lemma analyze_frame:
  "analyze issue a (res, dm, w) = (res', dm', w') \<Longrightarrow> w' = w\<lparr>run_log := run_log w'\<rparr>"
  by (auto simp: analyze_def run_def Let_def split: sum.splits option.splits)

lemma dispatch_frame:
  "dispatch issue as (res, dm, w) = (res', dm', w') \<Longrightarrow> w' = w\<lparr>run_log := run_log w'\<rparr>"
proof (induction as arbitrary: res dm w)
  case Nil
  then show ?case by simp
next
  case (Cons a as)
  obtain r1 d1 w1 where s: "analyze issue a (res, dm, w) = (r1, d1, w1)"
    by (cases "analyze issue a (res, dm, w)")
  from analyze_frame[OF s] have w1: "w1 = w\<lparr>run_log := run_log w1\<rparr>" .
  from Cons.prems s have "dispatch issue as (r1, d1, w1) = (res', dm', w')" by simp
  from Cons.IH[OF this] have "w' = w1\<lparr>run_log := run_log w'\<rparr>" .
  then show ?case by (subst (asm) w1) simp
qed

lemma coordinate_debugging_frame:
  assumes "coordinate_debugging w sw issue = (results, sw1, w1)"
  shows "w1 = w\<lparr>run_log := run_log w1\<rparr>" "agents sw1 = agents sw"
  using assms dispatch_frame
  by (auto simp: coordinate_debugging_def split: prod.splits)

lemma generate_fst:
  assumes "agents sw1 = agents sw" "agent_run w2 = agent_run w" "run_log w2 = log"
  shows "fst (generate_coordinated_solution w2 sw1 results) = synthesis w sw log results"
  using assms
  by (simp add: generate_coordinated_solution_def synthesis_def run_def Let_def split: list.splits)

lemma generate_frame:
  "generate_coordinated_solution w sw results = (out, w') \<Longrightarrow> w' = w\<lparr>run_log := run_log w'\<rparr>"
  by (auto simp: generate_coordinated_solution_def run_def Let_def split: list.splits)

lemma session_effect:
  assumes init: "swarm c = Some sw"
      and cd: "coordinate_debugging w sw issue = (results, sw1, w1)"
      and run: "coordinate_debugging_session w c issue context = (r, w', c')"
  shows "r = (case synthesis w sw (run_log w1) results of
                Inl e \<Rightarrow> Inl e
              | Inr solution \<Rightarrow>
                  Inr (session_record w c issue context results @ [(''coordinated_solution'', solution)]))"
    and "files w' = files (snd (store_coordination_memory w c
           (''swarms/debugging/sessions/debug-session-'' @ str_int (now_unix w))
           (JDict (session_record w c issue context results))))"
    and "db_fails w' = db_fails w"
    and "memory_db_path c' = memory_db_path c"
    and "swarm c' = Some sw1"
proof -
  let ?sid = "''debug-session-'' @ str_int (now_unix w)"
  obtain b1 c1 where h1: "claude_flow_hook w c ''pre-task''
      [(''description'', PStr (''Swarms debugging session: '' @ take 100 issue @ ''...'')),
       (''task-id'', PStr ?sid)] = (b1, c1)"
    by (cases "claude_flow_hook w c ''pre-task''
      [(''description'', PStr (''Swarms debugging session: '' @ take 100 issue @ ''...'')),
       (''task-id'', PStr ?sid)]")
  have p1: "memory_db_path c1 = memory_db_path c" using hook_fields[OF h1] by simp
  have ld: "load_coordination_memory w c1 ''swarms/debugging/context''
      = load_coordination_memory w c ''swarms/debugging/context''"
    using p1 by (intro load_eq) simp_all
  have w1: "w1 = w\<lparr>run_log := run_log w1\<rparr>" and ag: "agents sw1 = agents sw"
    using coordinate_debugging_frame[OF cd] by simp_all
  have iso: "now_iso w1 = now_iso w" by (subst w1) simp
  have fw1: "files w1 = files w" "db_fails w1 = db_fails w" by (subst w1, simp)+
  let ?data = "session_record w c issue context results"
  let ?c2 = "c1\<lparr>swarm := Some sw1\<rparr>"
  obtain ok w2 where st: "store_coordination_memory w1 ?c2
      (''swarms/debugging/sessions/'' @ ?sid) (JDict ?data) = (ok, w2)"
    by (cases "store_coordination_memory w1 ?c2
      (''swarms/debugging/sessions/'' @ ?sid) (JDict ?data)")
  have "agent_run w2 = agent_run w1" "run_log w2 = run_log w1"
    using store_frame[OF st] by simp_all
  moreover have "agent_run w1 = agent_run w" by (subst w1) simp
  ultimately have g: "fst (generate_coordinated_solution w2 sw1 results)
      = synthesis w sw (run_log w1) results"
    using ag by (intro generate_fst) simp_all
  obtain o3 w3 where gen: "generate_coordinated_solution w2 sw1 results = (o3, w3)"
    by (cases "generate_coordinated_solution w2 sw1 results")
  from g gen have o3: "o3 = synthesis w sw (run_log w1) results" by simp
  obtain b3 c3 where h3: "claude_flow_hook w3 ?c2 ''post-task''
      [(''task-id'', PStr ?sid), (''track-metrics'', PBool True), (''store-results'', PBool True)] = (b3, c3)"
    by (cases "claude_flow_hook w3 ?c2 ''post-task''
      [(''task-id'', PStr ?sid), (''track-metrics'', PBool True), (''store-results'', PBool True)]")
  obtain b4 c4 where h4: "claude_flow_hook w3 c3 ''notify''
      [(''message'', PStr (''Debugging session completed: ''
          @ str_int (int (length results)) @ '' agents participated'')),
       (''level'', PStr ''success'')] = (b4, c4)"
    by (cases "claude_flow_hook w3 c3 ''notify''
      [(''message'', PStr (''Debugging session completed: ''
          @ str_int (int (length results)) @ '' agents participated'')),
       (''level'', PStr ''success'')]")
  have unfold: "coordinate_debugging_session w c issue context =
      (case o3 of
         Inl e \<Rightarrow> (Inl e, w3, ?c2)
       | Inr solution \<Rightarrow> (Inr (dict_setitem ''coordinated_solution'' solution ?data), w3, c4))"
    using h1 st gen h3 h4
    by (cases "truthy (load_coordination_memory w c ''swarms/debugging/context'')"; cases o3)
       (simp_all add: coordinate_debugging_session_def init cd ld iso Let_def
        session_record_def session_context_def)
  have w': "w' = w3" using run unfold by (cases o3) simp_all
  have c'cases: "c' = ?c2 \<or> c' = c4" using run unfold by (cases o3) simp_all
  have c4: "memory_db_path c4 = memory_db_path c" "swarm c4 = Some sw1"
    using hook_fields[OF h4] hook_fields[OF h3] p1 by simp_all
  show "r = (case synthesis w sw (run_log w1) results of
                Inl e \<Rightarrow> Inl e
              | Inr solution \<Rightarrow>
                  Inr (session_record w c issue context results @ [(''coordinated_solution'', solution)]))"
    using run unfolding unfold o3
    by (cases "synthesis w sw (run_log w1) results") (auto simp: session_record_def)
  show "memory_db_path c' = memory_db_path c" using c'cases c4 p1 by auto
  show "swarm c' = Some sw1" using c'cases c4 by auto
  have w3: "w3 = w2\<lparr>run_log := run_log w3\<rparr>" using generate_frame[OF gen] .
  have f3: "files w3 = files w2" "db_fails w3 = db_fails w2" by (subst w3, simp)+
  have w2: "w2 = snd (store_coordination_memory w1 ?c2 (''swarms/debugging/sessions/'' @ ?sid) (JDict ?data))"
    using st by simp
  have "files w2 = files (snd (store_coordination_memory w c (''swarms/debugging/sessions/'' @ ?sid) (JDict ?data)))"
    and d2: "db_fails w2 = db_fails w"
    unfolding w2 using p1 fw1 iso by (intro store_files; simp)+
  then show "files w' = files (snd (store_coordination_memory w c
           (''swarms/debugging/sessions/debug-session-'' @ str_int (now_unix w))
           (JDict (session_record w c issue context results))))"
    using w' f3 by simp
  show "db_fails w' = db_fails w" using w' f3 d2 by simp
qed
lemma digit_chars:
  "digit_char 0 = CHR ''0''" "digit_char 1 = CHR ''1''" "digit_char 2 = CHR ''2''"
  "digit_char 3 = CHR ''3''" "digit_char 4 = CHR ''4''" "digit_char 5 = CHR ''5''"
  "digit_char 6 = CHR ''6''" "digit_char 7 = CHR ''7''" "digit_char 8 = CHR ''8''"
  "digit_char 9 = CHR ''9''" "digit_char (Suc 0) = CHR ''1''"
  using char_of_char[of "CHR ''0''", where ?'a = nat] char_of_char[of "CHR ''1''", where ?'a = nat]
    char_of_char[of "CHR ''2''", where ?'a = nat] char_of_char[of "CHR ''3''", where ?'a = nat]
    char_of_char[of "CHR ''4''", where ?'a = nat] char_of_char[of "CHR ''5''", where ?'a = nat]
    char_of_char[of "CHR ''6''", where ?'a = nat] char_of_char[of "CHR ''7''", where ?'a = nat]
    char_of_char[of "CHR ''8''", where ?'a = nat] char_of_char[of "CHR ''9''", where ?'a = nat]
  by (simp_all add: digit_char_def)

lemma str_int_1700000000: "str_int 1700000000 = ''1700000000''"
  by (simp add: str_int_def str_nat.simps digit_chars)

lemma str_int_1700000060: "str_int 1700000060 = ''1700000060''"
  by (simp add: str_int_def str_nat.simps digit_chars)



lemmas world_defs = echo_world_def failing_hooks_world_def no_synthesis_world_def timeout_world_def

lemma echo_dispatch:
  "coordinate_debugging echo_world abc_swarm ''tabs'' =
     ([(''A'', JStr ''seen by A''), (''B'', JStr ''seen by B''), (''C'', JStr ''seen by C'')],
      abc_swarm\<lparr>debug_memory := \<lparr>current_issue = Some ''tabs'', agent_findings =
        Some [(''A'', JStr ''seen by A''), (''B'', JStr ''seen by B''), (''C'', JStr ''seen by C'')]\<rparr>\<rparr>,
      echo_world\<lparr>run_log :=
        [(''A'', Context_Prompt ''tabs'' [], Inr (JStr ''seen by A'')),
         (''B'', Context_Prompt ''tabs'' [(''A'', JStr ''seen by A'')], Inr (JStr ''seen by B'')),
         (''C'', Context_Prompt ''tabs'' [(''A'', JStr ''seen by A''), (''B'', JStr ''seen by B'')],
           Inr (JStr ''seen by C''))]\<rparr>)"
  by (simp add: scenario_defs)

lemma hook_exception:
  assumes "subprocess_run w ([''npx'', ''claude-flow@alpha'', ''hooks'', hook_name]
             @ concat (map (\<lambda>(key, val). [''--'' @ key, py_str val]) params)) = Run_Raised e"
  shows "claude_flow_hook w c hook_name params = (False, c)"
  using assms by (simp add: claude_flow_hook_def)

lemma hook_nonzero_exit:
  assumes "subprocess_run w ([''npx'', ''claude-flow@alpha'', ''hooks'', hook_name]
             @ concat (map (\<lambda>(key, val). [''--'' @ key, py_str val]) params)) = Completed rc out err"
      and "rc \<noteq> 0"
  shows "claude_flow_hook w c hook_name params =
           (False, c\<lparr>coordination_log := coordination_log c @
              [\<lparr>le_timestamp = now_iso w, le_hook = hook_name, le_params = params,
                le_success = False, le_output = None, le_error = Some err\<rparr>]\<rparr>)"
  using assms by (simp add: claude_flow_hook_def)

lemma falsy_context_ignored:
  assumes "swarm c = Some sw"
      and "\<not> truthy (load_coordination_memory w c ''swarms/debugging/context'')"
      and "coordinate_debugging_session w c issue context = (Inr session, w', c')"
  shows "map_of session ''context'' = Some (JDict (case context of None \<Rightarrow> [] | Some d \<Rightarrow> d))"
proof -
  obtain results sw1 w1 where cd: "coordinate_debugging w sw issue = (results, sw1, w1)"
    by (cases "coordinate_debugging w sw issue")
  from session_effect(1)[OF assms(1) cd assms(3)]
  obtain solution where
    "session = session_record w c issue context results @ [(''coordinated_solution'', solution)]"
    by (cases "synthesis w sw (run_log w1) results") auto
  then have "map_of session ''context'' = Some (JDict (session_context w c context))"
    by (simp add: session_record_def)
  then show ?thesis
    using assms(2) by (simp add: session_context_def)
qed

lemma seeded_world_fields:
  "agent_run (seeded_world p) = agent_run echo_world"
  "files (seeded_world p) ''.swarm/memory.db'' = Some (Some
     [''swarms/debugging/context'' \<mapsto>
        \<lparr>row_value = json_dumps p, row_timestamp = now_iso echo_world, row_ttl = None\<rparr>])"
  "db_fails (seeded_world p) = (\<lambda>path. False)"
  by (simp_all add: seeded_world_def store_coordination_memory_def echo_world_def
      abc_coordinator_def Let_def del: json_dumps.simps)

lemma seeded_world_load:
  "wf_json p \<Longrightarrow> load_coordination_memory (seeded_world p) abc_coordinator ''swarms/debugging/context'' = p"
  using seeded_world_fields[of p] json_roundtrip[of p]
  by (simp add: load_coordination_memory_def abc_coordinator_def del: json_dumps.simps)

lemma seeded_session:
  "\<exists>session w' c'. coordinate_debugging_session (seeded_world p) abc_coordinator issue context
      = (Inr session, w', c')"
proof -
  obtain results sw1 w1 where
    cd: "coordinate_debugging (seeded_world p) abc_swarm issue = (results, sw1, w1)"
    by (cases "coordinate_debugging (seeded_world p) abc_swarm issue")
  have init: "swarm abc_coordinator = Some abc_swarm" by (simp add: abc_coordinator_def)
  have syn: "synthesis (seeded_world p) abc_swarm (run_log w1) results = Inr (JStr ''seen by A'')"
    by (simp add: synthesis_def abc_swarm_def TerminalDebugSwarm_def seeded_world_fields echo_world_def)
  obtain r w' c' where run: "coordinate_debugging_session (seeded_world p) abc_coordinator issue context = (r, w', c')"
    by (cases "coordinate_debugging_session (seeded_world p) abc_coordinator issue context")
  from session_effect(1)[OF init cd run] syn run show ?thesis by simp
qed

lemma five_agents: "length (agents create_terminal_debug_swarm) = 5"
  by (simp add: create_terminal_debug_swarm_def create_debug_agents_def)

section \<open>Claims about the hook gateway\<close>

text \<open>
  C5. When \<open>subprocess.run\<close> raises (here a timeout), the hook returns \<open>False\<close> and
  the coordination log is left as it was: the \<open>except\<close> branch appends no entry. A
  non-zero return code does append one, see \<open>hook_nonzero_exit\<close>.
\<close>

theorem hook_exception_leaves_no_entry:
  "claude_flow_hook timeout_world abc_coordinator ''pre-task'' [(''task-id'', PStr ''debug-session-1'')]
     = (False, abc_coordinator)"
  by (simp add: claude_flow_hook_def timeout_world_def echo_world_def)




section \<open>Claims about the session record\<close>

text \<open>
  C9. When the store holds a truthy value \<open>p\<close> under
  \<open>swarms/debugging/context\<close>, the context of the session is the caller's context (or
  the empty dictionary) with \<open>previous_findings\<close> set to \<open>p\<close>: \<open>p\<close> replaces an
  earlier entry of that key and every other key keeps its value.
\<close>

theorem context_merge:
  assumes "swarm c = Some sw"
      and "load_coordination_memory w c ''swarms/debugging/context'' = p"
      and "truthy p"
      and "coordinate_debugging_session w c issue context = (Inr session, w', c')"
  shows "map_of session ''context'' =
           Some (JDict (dict_setitem ''previous_findings'' p
                          (case context of None \<Rightarrow> [] | Some d \<Rightarrow> d)))
       \<and> map_of (dict_setitem ''previous_findings'' p (case context of None \<Rightarrow> [] | Some d \<Rightarrow> d))
           = (map_of (case context of None \<Rightarrow> [] | Some d \<Rightarrow> d))(''previous_findings'' \<mapsto> p)"
proof -
  obtain results sw1 w1 where cd: "coordinate_debugging w sw issue = (results, sw1, w1)"
    by (cases "coordinate_debugging w sw issue")
  from session_effect(1)[OF assms(1) cd assms(4)]
  obtain solution where
    "session = session_record w c issue context results @ [(''coordinated_solution'', solution)]"
    by (cases "synthesis w sw (run_log w1) results") auto
  then have "map_of session ''context'' = Some (JDict (session_context w c context))"
    by (simp add: session_record_def)
  then show ?thesis
    using assms(2,3) by (simp add: session_context_def map_of_dict_setitem)
qed

theorem context_merge_witness:
  "swarm abc_coordinator = Some abc_swarm
   \<and> truthy (JDict [(''cause'', JStr ''css'')])
   \<and> load_coordination_memory (seeded_world (JDict [(''cause'', JStr ''css'')])) abc_coordinator
        ''swarms/debugging/context'' = JDict [(''cause'', JStr ''css'')]
   \<and> (\<exists>session. fst (coordinate_debugging_session (seeded_world (JDict [(''cause'', JStr ''css'')]))
           abc_coordinator ''tabs''
           (Some [(''previous_findings'', JStr ''stale''), (''device'', JStr ''mobile'')])) = Inr session
        \<and> map_of session ''context'' = Some (JDict
            [(''previous_findings'', JDict [(''cause'', JStr ''css'')]), (''device'', JStr ''mobile'')]))"
proof -
  let ?p = "JDict [(''cause'', JStr ''css'')]"
  let ?ctx = "Some [(''previous_findings'', JStr ''stale''), (''device'', JStr ''mobile'')]"
  have init: "swarm abc_coordinator = Some abc_swarm" by (simp add: abc_coordinator_def)
  have ld: "load_coordination_memory (seeded_world ?p) abc_coordinator ''swarms/debugging/context'' = ?p"
    by (rule seeded_world_load) simp
  have t: "truthy ?p" by simp
  obtain session w' c' where run:
    "coordinate_debugging_session (seeded_world ?p) abc_coordinator ''tabs'' ?ctx = (Inr session, w', c')"
    using seeded_session by blast
  from context_merge[OF init ld t run]
  have "map_of session ''context'' = Some (JDict
            [(''previous_findings'', JDict [(''cause'', JStr ''css'')]), (''device'', JStr ''mobile'')])"
    by simp
  then show ?thesis using init ld run by simp
qed

text \<open>
  A stored value that is falsy, here the empty dictionary, is treated like a missing one:
  the context is left as the caller gave it.
\<close>

theorem context_merge_counterexample:
  "files (seeded_world (JDict [])) ''.swarm/memory.db'' = Some (Some
     [''swarms/debugging/context'' \<mapsto>
        \<lparr>row_value = ''{}'', row_timestamp = ''2023-11-14T22:13:20'', row_ttl = None\<rparr>])
   \<and> load_coordination_memory (seeded_world (JDict [])) abc_coordinator
        ''swarms/debugging/context'' = JDict []
   \<and> (\<exists>session. fst (coordinate_debugging_session (seeded_world (JDict [])) abc_coordinator ''tabs''
           (Some [(''device'', JStr ''mobile'')])) = Inr session
        \<and> map_of session ''context'' = Some (JDict [(''device'', JStr ''mobile'')])
        \<and> map_of session ''context'' \<noteq> Some (JDict (dict_setitem ''previous_findings'' (JDict [])
             [(''device'', JStr ''mobile'')])))"
proof -
  let ?ctx = "Some [(''device'', JStr ''mobile'')]"
  have init: "swarm abc_coordinator = Some abc_swarm" by (simp add: abc_coordinator_def)
  have ld: "load_coordination_memory (seeded_world (JDict [])) abc_coordinator ''swarms/debugging/context'' = JDict []"
    by (rule seeded_world_load) simp
  obtain session w' c' where run:
    "coordinate_debugging_session (seeded_world (JDict [])) abc_coordinator ''tabs'' ?ctx = (Inr session, w', c')"
    using seeded_session by blast
  have "map_of session ''context'' = Some (JDict [(''device'', JStr ''mobile'')])"
    using falsy_context_ignored[OF init _ run] ld by simp
  then show ?thesis using ld run by (simp add: seeded_world_fields echo_world_def)
qed

text \<open>
  C1. The record written under \<open>swarms/debugging/sessions/<session_id>\<close> is the
  session record before the solution is added: read back after the call, it has no
  \<open>coordinated_solution\<close>, which the returned record has.
\<close>

theorem persisted_record_lacks_solution:
  "case coordinate_debugging_session echo_world abc_coordinator ''tabs'' None of
     (r, w', c') \<Rightarrow>
       (\<exists>session stored. r = Inr session
          \<and> load_coordination_memory w' c' ''swarms/debugging/sessions/debug-session-1700000000''
              = JDict stored
          \<and> map_of session ''coordinated_solution'' = Some (JStr ''seen by A'')
          \<and> map_of stored ''coordinated_solution'' = None
          \<and> session = stored @ [(''coordinated_solution'', JStr ''seen by A'')])"
proof -
  let ?results = "[(''A'', JStr ''seen by A''), (''B'', JStr ''seen by B''), (''C'', JStr ''seen by C'')]"
  let ?stored = "session_record echo_world abc_coordinator ''tabs'' None ?results"
  let ?key = "''swarms/debugging/sessions/debug-session-'' @ str_int (now_unix echo_world)"
  obtain r w' c' where run:
    "coordinate_debugging_session echo_world abc_coordinator ''tabs'' None = (r, w', c')"
    by (cases "coordinate_debugging_session echo_world abc_coordinator ''tabs'' None")
  have init: "swarm abc_coordinator = Some abc_swarm" by (simp add: abc_coordinator_def)
  have syn: "synthesis echo_world abc_swarm log results = Inr (JStr ''seen by A'')" for log results
    by (simp add: synthesis_def abc_swarm_def TerminalDebugSwarm_def world_defs)
  note eff = session_effect[OF init echo_dispatch run]
  have r: "r = Inr (?stored @ [(''coordinated_solution'', JStr ''seen by A'')])"
    using eff(1) by (simp add: syn)
  have ctx: "session_context echo_world abc_coordinator None = []"
    by (simp add: session_context_def load_coordination_memory_def echo_world_def)
  have wf: "wf_json (JDict ?stored)"
    by (simp add: session_record_def ctx)
  have ok: "fst (store_coordination_memory echo_world abc_coordinator ?key (JDict ?stored))"
    by (simp add: store_coordination_memory_def echo_world_def Let_def)
  then have st: "store_coordination_memory echo_world abc_coordinator ?key (JDict ?stored)
      = (True, snd (store_coordination_memory echo_world abc_coordinator ?key (JDict ?stored)))"
    by (cases "store_coordination_memory echo_world abc_coordinator ?key (JDict ?stored)") simp
  have "db_fails (snd (store_coordination_memory echo_world abc_coordinator ?key (JDict ?stored)))
      = db_fails echo_world"
    by (simp add: store_coordination_memory_def Let_def)
  then have "load_coordination_memory w' c' ?key
      = load_coordination_memory
          (snd (store_coordination_memory echo_world abc_coordinator ?key (JDict ?stored)))
          abc_coordinator ?key"
    using eff(2,3,4) by (intro load_eq) simp_all
  also have "\<dots> = JDict ?stored"
    using wf st by (rule load_after_store)
  finally have ld: "load_coordination_memory w' c' ?key = JDict ?stored" .
  have key: "?key = ''swarms/debugging/sessions/debug-session-1700000000''"
    by (simp add: echo_world_def str_int_1700000000)
  have none: "map_of ?stored ''coordinated_solution'' = None"
    by (simp add: session_record_def)
  show ?thesis
    unfolding run using r ld none unfolding key by (simp add: map_add_Some_iff)
qed

text \<open>
  C2. After \<open>initialize_swarm\<close> and two sessions, the table holds both session rows
  and the status reports five agents but no debugging session: it reads the one key
  \<open>swarms/debugging/sessions\<close>, under which nothing is written.
\<close>

theorem status_misses_persisted_sessions:
  "case initialize_swarm echo_world (SwarmsClaudeFlowCoordinator ''.swarm/memory.db'') of
     (ok, w1, c1) \<Rightarrow>
       (case coordinate_debugging_session w1 c1 ''tabs'' None of
          (r1, w2, c2) \<Rightarrow>
            (case coordinate_debugging_session (w2\<lparr>now_unix := 1700000060\<rparr>) c2 ''scroll'' None of
               (r2, w3, c3) \<Rightarrow>
                 (\<exists>t. files w3 ''.swarm/memory.db'' = Some (Some t)
                    \<and> t ''swarms/debugging/sessions/debug-session-1700000000'' \<noteq> None
                    \<and> t ''swarms/debugging/sessions/debug-session-1700000060'' \<noteq> None)
                 \<and> map_of (get_coordination_status w3 c3) ''agent_count'' = Some (JInt 5)
                 \<and> map_of (get_coordination_status w3 c3) ''debugging_sessions'' = Some (JInt 0)))"
proof -
  let ?path = "''.swarm/memory.db''"
  let ?c0 = "SwarmsClaudeFlowCoordinator ?path"
  let ?sw = "create_terminal_debug_swarm"
  obtain ok w1 c1 where i: "initialize_swarm echo_world ?c0 = (ok, w1, c1)"
    by (cases "initialize_swarm echo_world ?c0")
  have c1: "swarm c1 = Some ?sw" "memory_db_path c1 = ?path"
    using i
    by (auto simp: initialize_swarm_def claude_flow_hook_def store_coordination_memory_def
        echo_world_def SwarmsClaudeFlowCoordinator_def Let_def simp del: json_dumps.simps)
  have w1: "db_fails w1 = (\<lambda>path. False)" "now_unix w1 = 1700000000"
    "\<exists>r0. files w1 = [?path \<mapsto> Some [''swarms/metadata'' \<mapsto> r0]]"
    using i
    by (auto simp: initialize_swarm_def claude_flow_hook_def store_coordination_memory_def
        echo_world_def SwarmsClaudeFlowCoordinator_def Let_def simp del: json_dumps.simps)
  then obtain r0 where f1: "files w1 = [?path \<mapsto> Some [''swarms/metadata'' \<mapsto> r0]]" by blast
  obtain res1 sw1 wa where cd1: "coordinate_debugging w1 ?sw ''tabs'' = (res1, sw1, wa)"
    by (cases "coordinate_debugging w1 ?sw ''tabs''")
  obtain r1 w2 c2 where run1: "coordinate_debugging_session w1 c1 ''tabs'' None = (r1, w2, c2)"
    by (cases "coordinate_debugging_session w1 c1 ''tabs'' None")
  note e1 = session_effect[OF c1(1) cd1 run1]
  have a1: "agents sw1 = agents ?sw" using coordinate_debugging_frame[OF cd1] by simp
  define ra where "ra = \<lparr>row_value = json_dumps (JDict (session_record w1 c1 ''tabs'' None res1)),
      row_timestamp = now_iso w1, row_ttl = None\<rparr>"
  have f2: "files w2 = [?path \<mapsto> Some [''swarms/metadata'' \<mapsto> r0,
      ''swarms/debugging/sessions/debug-session-1700000000'' \<mapsto> ra]]"
    unfolding e1(2) ra_def
    by (simp add: store_files_eq w1 c1 f1 str_int_1700000000 del: json_dumps.simps)
  have d2: "db_fails w2 = (\<lambda>path. False)" using e1(3) w1 by simp
  have p2: "memory_db_path c2 = ?path" using e1(4) c1 by simp
  let ?w2 = "w2\<lparr>now_unix := 1700000060\<rparr>"
  obtain res2 sw2 wb where cd2: "coordinate_debugging ?w2 sw1 ''scroll'' = (res2, sw2, wb)"
    by (cases "coordinate_debugging ?w2 sw1 ''scroll''")
  obtain r2 w3 c3 where run2: "coordinate_debugging_session ?w2 c2 ''scroll'' None = (r2, w3, c3)"
    by (cases "coordinate_debugging_session ?w2 c2 ''scroll'' None")
  note e2 = session_effect[OF e1(5) cd2 run2]
  have a2: "agents sw2 = agents ?sw" using coordinate_debugging_frame[OF cd2] a1 by simp
  define rb where "rb = \<lparr>row_value = json_dumps (JDict (session_record ?w2 c2 ''scroll'' None res2)),
      row_timestamp = now_iso ?w2, row_ttl = None\<rparr>"
  have f3: "files w3 = [?path \<mapsto> Some [''swarms/metadata'' \<mapsto> r0,
      ''swarms/debugging/sessions/debug-session-1700000000'' \<mapsto> ra,
      ''swarms/debugging/sessions/debug-session-1700000060'' \<mapsto> rb]]"
    unfolding e2(2) rb_def
    by (simp add: store_files_eq d2 p2 f2 str_int_1700000060 del: json_dumps.simps)
  have d3: "db_fails w3 = (\<lambda>path. False)" using e2(3) d2 by simp
  have p3: "memory_db_path c3 = ?path" using e2(4) p2 by simp
  have ld: "load_coordination_memory w3 c3 ''swarms/debugging/sessions'' = JNull"
    by (simp add: load_coordination_memory_def f3 d3 p3)
  have st: "map_of (get_coordination_status w3 c3) ''agent_count'' = Some (JInt 5)"
    "map_of (get_coordination_status w3 c3) ''debugging_sessions'' = Some (JInt 0)"
    by (simp_all add: get_coordination_status_def ld e2(5) a2 five_agents map_of_dict_setitem Let_def)
  show ?thesis
    using st by (simp add: i run1 run2 f3)
qed

end
